theory Spec2Isabelle
  imports Main
begin

section \<open>Python idioms shared by the modules\<close>

text \<open>
  The mutator of \<^verbatim>\<open>formation/mutation.py\<close> builds every statement as a Python string.
  Strings are \<open>char list\<close>; the characters the sources name by escape sequence are
  written by code point.
\<close>

abbreviation backslash :: char where "backslash \<equiv> CHR 0x5C"
abbreviation apostrophe :: char where "apostrophe \<equiv> CHR 0x27"
abbreviation dquote :: char where "dquote \<equiv> CHR 0x22"
abbreviation backspace :: char where "backspace \<equiv> CHR 0x08"
abbreviation formfeed :: char where "formfeed \<equiv> CHR 0x0C"
abbreviation linefeed :: char where "linefeed \<equiv> CHR 0x0A"
abbreviation carriage_return :: char where "carriage_return \<equiv> CHR 0x0D"
abbreviation tab :: char where "tab \<equiv> CHR 0x09"

text \<open>\<^verbatim>\<open>sep.join(items)\<close>.\<close>

fun join :: "string \<Rightarrow> string list \<Rightarrow> string" where
  "join sep [] = []"
| "join sep [x] = x"
| "join sep (x # y # ys) = x @ sep @ join sep (y # ys)"

text \<open>
  \<^verbatim>\<open>if statement: statements.append(statement)\<close> for an \<^verbatim>\<open>Optional[str]\<close>: both
  \<^verbatim>\<open>None\<close> and the empty string are falsy and append nothing.
\<close>

fun append_if :: "string option \<Rightarrow> string list" where
  "append_if None = []"
| "append_if (Some s) = (if s = [] then [] else [s])"

text \<open>\<^verbatim>\<open>f"{value}"\<close> of an \<^verbatim>\<open>Optional[str]\<close>: \<^verbatim>\<open>None\<close> prints as the word None.\<close>

fun format_optional :: "string option \<Rightarrow> string" where
  "format_optional None = ''None''"
| "format_optional (Some s) = s"

section \<open>PostgreSQL string literals (dialect/postgresql/object\_types.py)\<close>

text \<open>
  \<^verbatim>\<open>_sql_quoted_str_table\<close>: the translation table of \<^verbatim>\<open>str.translate\<close>, one
  replacement per character; a character outside the table is kept.
\<close>

definition sql_quoted_str_table :: "char \<Rightarrow> string" where
  "sql_quoted_str_table c =
     (if c = backslash then [backslash, backslash]
      else if c = apostrophe then [backslash, apostrophe]
      else if c = backspace then [backslash, CHR ''b'']
      else if c = formfeed then [backslash, CHR ''f'']
      else if c = linefeed then [backslash, CHR ''n'']
      else if c = carriage_return then [backslash, CHR ''r'']
      else if c = tab then [backslash, CHR ''t'']
      else [c])"

text \<open>The character class \<^verbatim>\<open>[\b\f\n\r\t]\<close> of the regular expression.\<close>

definition control_char :: "char \<Rightarrow> bool" where
  "control_char c \<longleftrightarrow>
     c = backspace \<or> c = formfeed \<or> c = linefeed \<or> c = carriage_return \<or> c = tab"

text \<open>\<^verbatim>\<open>text.replace("'", "''")\<close>: the pattern is one character long.\<close>

definition double_apostrophe :: "char \<Rightarrow> string" where
  "double_apostrophe c = (if c = apostrophe then [apostrophe, apostrophe] else [c])"

definition sql_quoted_string :: "string \<Rightarrow> string" where
  "sql_quoted_string text =
     (if list_ex control_char text
      then ''E'' @ [apostrophe] @ concat (map sql_quoted_str_table text) @ [apostrophe]
      else [apostrophe] @ concat (map double_apostrophe text) @ [apostrophe])"

section \<open>The schema object model\<close>

text \<open>
  \<^verbatim>\<open>model/id_types.py\<close> is used through \<^verbatim>\<open>LocalId(id)\<close>,
  \<^verbatim>\<open>QualifiedId(namespace, id)\<close> and the field \<^verbatim>\<open>.id\<close>.
\<close>

datatype LocalId = LocalId (local_id: string)

datatype QualifiedId = QualifiedId (scope_id: "string option") (qualified_id: string)

text \<open>
  The exceptions of \<^verbatim>\<open>formation/object_types.py\<close> that the mutator raises or catches.
  \<open>TableFormationError\<close> carries its message, the table's name and the exception it was
  raised \<^verbatim>\<open>from\<close>. \<open>KeyError\<close> is what a failed \<^verbatim>\<open>mapping[key]\<close> raises.
\<close>

datatype error =
    FormationError string
  | ColumnFormationError string LocalId
  | TableFormationError string QualifiedId error
  | KeyError string

text \<open>
  Modelled from the spec: the classes of \<^verbatim>\<open>formation/object_types.py\<close>, which is not
  among the sources. The fields are those of section 3 of the specification; the data
  type of a column is a parameter \<open>'ty\<close>. A mapping is an association list in insertion
  order, read with \<open>map_of\<close>.
\<close>

record 'ty Column =
  col_name :: LocalId
  col_data_type :: 'ty
  col_nullable :: bool
  col_default :: "string option"
  col_identity :: bool
  col_description :: "string option"

record Constraint =
  con_name :: LocalId
  con_is_alter_table :: bool
  con_spec :: string

record 'ty Table =
  tbl_name :: QualifiedId
  tbl_columns :: "(string \<times> 'ty Column) list"
  tbl_primary_key :: LocalId
  tbl_constraints :: "Constraint list"
  tbl_description :: "string option"

record EnumType =
  enum_name :: QualifiedId
  enum_values :: "string list"

record 'ty StructMember =
  mem_name :: LocalId
  mem_data_type :: 'ty
  mem_description :: "string option"

record 'ty StructType =
  struct_name :: QualifiedId
  struct_members :: "(string \<times> 'ty StructMember) list"

record 'ty Namespace =
  ns_name :: LocalId
  ns_enums :: "(string \<times> EnumType) list"
  ns_structs :: "(string \<times> 'ty StructType) list"
  ns_tables :: "(string \<times> 'ty Table) list"

record 'ty Catalog =
  cat_namespaces :: "(string \<times> 'ty Namespace) list"

text \<open>
  The methods of the object model that the mutator calls and whose code is not among
  the sources are parameters of the model: printing (\<^verbatim>\<open>__str__\<close>),
  \<^verbatim>\<open>constant\<close> of \<^verbatim>\<open>data_types.py\<close>, and the statement renderers, each of which
  may raise.
\<close>

record 'ty Rendering =
  str_local :: "LocalId \<Rightarrow> string"
  str_qualified :: "QualifiedId \<Rightarrow> string"
  str_data_type :: "'ty \<Rightarrow> string"
  str_member :: "'ty StructMember \<Rightarrow> string"
  sql_constant :: "string \<Rightarrow> string"
  default_expr :: "'ty Column \<Rightarrow> string"
  column_create_stmt :: "'ty Column \<Rightarrow> error + string"
  column_drop_stmt :: "'ty Column \<Rightarrow> error + string"
  table_create_stmt :: "'ty Table \<Rightarrow> error + string"
  table_drop_stmt :: "'ty Table \<Rightarrow> error + string"
  table_add_constraints_stmt :: "'ty Table \<Rightarrow> error + string option"
  alter_table_stmt :: "'ty Table \<Rightarrow> string list \<Rightarrow> error + string"
  enum_create_stmt :: "EnumType \<Rightarrow> error + string"
  enum_drop_stmt :: "EnumType \<Rightarrow> error + string"
  struct_create_stmt :: "'ty StructType \<Rightarrow> error + string"
  struct_drop_stmt :: "'ty StructType \<Rightarrow> error + string"
  namespace_create_stmt :: "'ty Namespace \<Rightarrow> error + string"
  namespace_drop_stmt :: "'ty Namespace \<Rightarrow> error + string"
  namespace_add_constraints_stmt :: "'ty Namespace \<Rightarrow> error + string option"
  namespace_drop_constraints_stmt :: "'ty Namespace \<Rightarrow> error + string option"

text \<open>Mapping access: \<^verbatim>\<open>m.keys()\<close>, \<^verbatim>\<open>m.values()\<close>, \<^verbatim>\<open>key in m\<close>, \<^verbatim>\<open>m[key]\<close>.\<close>

definition keys :: "(string \<times> 'a) list \<Rightarrow> string list" where
  "keys m = map fst m"

definition values_of :: "(string \<times> 'a) list \<Rightarrow> 'a list" where
  "values_of m = map snd m"

definition has_key :: "(string \<times> 'a) list \<Rightarrow> string \<Rightarrow> bool" where
  "has_key m k \<longleftrightarrow> k \<in> set (keys m)"

definition getitem :: "(string \<times> 'a) list \<Rightarrow> string \<Rightarrow> error + 'a" where
  "getitem m k = (case map_of m k of None \<Rightarrow> Inl (KeyError k) | Some v \<Rightarrow> Inr v)"

text \<open>
  A list comprehension or loop whose body may raise: the results in order, or the first
  exception.
\<close>

fun collect :: "('a \<Rightarrow> error + 'b list) \<Rightarrow> 'a list \<Rightarrow> error + 'b list" where
  "collect f [] = Inr []"
| "collect f (x # xs) =
     (case f x of
        Inl e \<Rightarrow> Inl e
      | Inr ys \<Rightarrow> (case collect f xs of Inl e \<Rightarrow> Inl e | Inr zs \<Rightarrow> Inr (ys @ zs)))"

section \<open>The mutator (formation/mutation.py)\<close>

text \<open>
  \<^verbatim>\<open>Mutator.check_identity\<close>, for a name type \<open>'n\<close> printed by \<open>str\<close>.
\<close>

definition check_identity :: "('n \<Rightarrow> string) \<Rightarrow> 'n \<Rightarrow> 'n \<Rightarrow> error + unit" where
  "check_identity str source_name target_name =
     (if source_name \<noteq> target_name
      then Inl (FormationError
                 (''object mismatch: '' @ str source_name @ '' != '' @ str target_name))
      else Inr ())"

definition mutate_enum_stmt ::
  "'ty Rendering \<Rightarrow> EnumType \<Rightarrow> EnumType \<Rightarrow> error + string option" where
  "mutate_enum_stmt R source target =
     (case check_identity (str_qualified R) (enum_name source) (enum_name target) of
        Inl e \<Rightarrow> Inl e
      | Inr _ \<Rightarrow>
          (let removed_values =
                 filter (\<lambda>v. v \<notin> set (enum_values target)) (enum_values source)
           in if removed_values \<noteq> []
              then Inl (FormationError
                         (''operation not permitted; cannot drop values in an enumeration: ''
                          @ concat removed_values))
              else
                (let added_values =
                       filter (\<lambda>v. v \<notin> set (enum_values source)) (enum_values target)
                 in if added_values \<noteq> []
                    then Inr (Some
                           (''ALTER TYPE '' @ str_qualified R (enum_name source) @ ''\<newline>''
                            @ join '',\<newline>''
                                (map (\<lambda>v. ''ADD VALUE '' @ sql_constant R v) added_values)
                            @ '';''))
                    else Inr None)))"

text \<open>
  \<^verbatim>\<open>Mutator.mutate_struct_stmt\<close>. The second loop tests each target member against
  \<^verbatim>\<open>target.members.values()\<close>, as the source does.
\<close>

definition mutate_struct_stmt ::
  "'ty Rendering \<Rightarrow> 'ty StructType \<Rightarrow> 'ty StructType \<Rightarrow> error + string option" where
  "mutate_struct_stmt R source target =
     (case check_identity (str_qualified R) (struct_name source) (struct_name target) of
        Inl e \<Rightarrow> Inl e
      | Inr _ \<Rightarrow>
          (let statements =
                 map (\<lambda>source_member. ''DROP ATTRIBUTE '' @ str_local R (mem_name source_member))
                   (filter (\<lambda>source_member.
                              source_member \<notin> set (values_of (struct_members target)))
                      (values_of (struct_members source)))
                 @ map (\<lambda>target_member. ''ADD ATTRIBUTE '' @ str_member R target_member)
                     (filter (\<lambda>target_member.
                                target_member \<notin> set (values_of (struct_members target)))
                        (values_of (struct_members target)))
           in if statements \<noteq> []
              then Inr (Some
                     (''ALTER TYPE '' @ str_qualified R (struct_name source) @ ''\<newline>''
                      @ join '',\<newline>'' statements @ '';\<newline>''))
              else Inr None))"

text \<open>
  \<^verbatim>\<open>Mutator.mutate_column_stmt\<close>: \<open>column_changes\<close> is the list \<^verbatim>\<open>statements\<close> the
  method builds after the equality test.
\<close>

definition column_changes :: "'ty Rendering \<Rightarrow> 'ty Column \<Rightarrow> 'ty Column \<Rightarrow> string list" where
  "column_changes R source target =
     (if col_data_type source \<noteq> col_data_type target
      then [''SET DATA TYPE '' @ str_data_type R (col_data_type target)] else [])
     @ (if col_nullable source \<and> \<not> col_nullable target then [''SET NOT NULL'']
        else if \<not> col_nullable source \<and> col_nullable target then [''DROP NOT NULL'']
        else [])
     @ (if col_default source \<noteq> None \<and> col_default target = None then [''DROP DEFAULT'']
        else if col_default source \<noteq> col_default target
        then [''SET DEFAULT '' @ format_optional (col_default target)]
        else [])
     @ (if col_identity source \<and> \<not> col_identity target then [''DROP IDENTITY'']
        else if \<not> col_identity source \<and> col_identity target
        then [''ADD GENERATED BY DEFAULT AS IDENTITY'']
        else [])"

definition mutate_column_stmt ::
  "'ty Rendering \<Rightarrow> 'ty Column \<Rightarrow> 'ty Column \<Rightarrow> error + string option" where
  "mutate_column_stmt R source target =
     (if source = target then Inr None
      else
        (let statements = column_changes R source target
         in if statements \<noteq> []
            then Inr (Some (join '',\<newline>''
                   (map (\<lambda>s. ''ALTER COLUMN '' @ str_local R (col_name source) @ '' '' @ s)
                      statements)))
            else Inr None))"

text \<open>
  \<^verbatim>\<open>OracleMutator.mutate_column_stmt\<close> (dialect/oracle/mutation.py), which overrides
  the method above.
\<close>

definition oracle_column_changes ::
  "'ty Rendering \<Rightarrow> 'ty Column \<Rightarrow> 'ty Column \<Rightarrow> string list" where
  "oracle_column_changes R source target =
     (if col_data_type source \<noteq> col_data_type target
      then [str_data_type R (col_data_type target)] else [])
     @ (if col_default source \<noteq> col_default target
        then (if col_default target \<noteq> None then [''DEFAULT '' @ default_expr R target]
              else [''DEFAULT NULL''])
        else [])
     @ (if col_nullable source \<noteq> col_nullable target
        then (if \<not> col_nullable target then [''NOT NULL''] else [''NULL''])
        else [])
     @ (if col_identity source \<noteq> col_identity target
        then (if col_identity target then [''GENERATED BY DEFAULT AS IDENTITY'']
              else [''DROP IDENTITY''])
        else [])"

definition oracle_mutate_column_stmt ::
  "'ty Rendering \<Rightarrow> 'ty Column \<Rightarrow> 'ty Column \<Rightarrow> error + string option" where
  "oracle_mutate_column_stmt R source target =
     (let changes = oracle_column_changes R source target
      in if changes \<noteq> []
         then Inr (Some (''MODIFY '' @ str_local R (col_name source) @ '' ''
                         @ join '' '' changes))
         else Inr None)"

text \<open>
  \<^verbatim>\<open>Mutator.mutate_table_stmt\<close>. The method calls \<^verbatim>\<open>self.mutate_column_stmt\<close>, which
  a dialect overrides, so the column mutator is the parameter \<open>mutate_column\<close>. Each of
  the two loops runs inside a \<^verbatim>\<open>try\<close> whose handler catches
  \<^verbatim>\<open>ColumnFormationError\<close> only.
\<close>

definition create_or_update_column ::
  "'ty Rendering \<Rightarrow> ('ty Column \<Rightarrow> 'ty Column \<Rightarrow> error + string option)
     \<Rightarrow> 'ty Table \<Rightarrow> 'ty Column \<Rightarrow> error + string list" where
  "create_or_update_column R mutate_column source target_column =
     (case map_of (tbl_columns source) (local_id (col_name target_column)) of
        None \<Rightarrow>
          (case column_create_stmt R target_column of
             Inl e \<Rightarrow> Inl e
           | Inr statement \<Rightarrow> Inr [statement])
      | Some source_column \<Rightarrow>
          (case mutate_column source_column target_column of
             Inl e \<Rightarrow> Inl e
           | Inr statement \<Rightarrow> Inr (append_if statement)))"

definition drop_column :: "'ty Rendering \<Rightarrow> 'ty Table \<Rightarrow> 'ty Column \<Rightarrow> error + string list" where
  "drop_column R target source_column =
     (if \<not> has_key (tbl_columns target) (local_id (col_name source_column))
      then (case column_drop_stmt R source_column of
              Inl e \<Rightarrow> Inl e
            | Inr statement \<Rightarrow> Inr [statement])
      else Inr [])"

fun except_column_error :: "string \<Rightarrow> QualifiedId \<Rightarrow> error + 'a \<Rightarrow> error + 'a" where
  "except_column_error msg table_name (Inl (ColumnFormationError m c)) =
     Inl (TableFormationError msg table_name (ColumnFormationError m c))"
| "except_column_error msg table_name r = r"

text \<open>
  The constraint branches. The third branch of the source, taken when both tables have
  constraints, is a loop whose body is \<^verbatim>\<open>...\<close>: it appends nothing.
\<close>

definition constraint_changes :: "'ty Rendering \<Rightarrow> 'ty Table \<Rightarrow> 'ty Table \<Rightarrow> string list" where
  "constraint_changes R source target =
     (if tbl_constraints source \<noteq> [] \<and> tbl_constraints target = []
      then map (\<lambda>c. ''DROP CONSTRAINT '' @ str_local R (con_name c))
             (filter con_is_alter_table (tbl_constraints source))
      else if tbl_constraints source = [] \<and> tbl_constraints target \<noteq> []
      then map (\<lambda>c. ''ADD CONSTRAINT '' @ con_spec c)
             (filter con_is_alter_table (tbl_constraints target))
      else [])"

definition table_changes ::
  "'ty Rendering \<Rightarrow> ('ty Column \<Rightarrow> 'ty Column \<Rightarrow> error + string option)
     \<Rightarrow> 'ty Table \<Rightarrow> 'ty Table \<Rightarrow> error + string list" where
  "table_changes R mutate_column source target =
     (case check_identity (str_qualified R) (tbl_name source) (tbl_name target) of
        Inl e \<Rightarrow> Inl e
      | Inr _ \<Rightarrow>
          (case except_column_error ''failed to create or update columns in table''
                  (tbl_name target)
                  (collect (create_or_update_column R mutate_column source)
                     (values_of (tbl_columns target))) of
             Inl e \<Rightarrow> Inl e
           | Inr updated \<Rightarrow>
               (case except_column_error ''failed to drop columns in table''
                       (tbl_name target)
                       (collect (drop_column R target) (values_of (tbl_columns source))) of
                  Inl e \<Rightarrow> Inl e
                | Inr dropped \<Rightarrow> Inr (updated @ dropped @ constraint_changes R source target))))"

definition mutate_table_stmt ::
  "'ty Rendering \<Rightarrow> ('ty Column \<Rightarrow> 'ty Column \<Rightarrow> error + string option)
     \<Rightarrow> 'ty Table \<Rightarrow> 'ty Table \<Rightarrow> error + string option" where
  "mutate_table_stmt R mutate_column source target =
     (case table_changes R mutate_column source target of
        Inl e \<Rightarrow> Inl e
      | Inr statements \<Rightarrow>
          if statements \<noteq> []
          then (case alter_table_stmt R source statements of
                  Inl e \<Rightarrow> Inl e
                | Inr statement \<Rightarrow> Inr (Some statement))
          else Inr None)"

text \<open>The module functions \<^verbatim>\<open>_create_diff\<close>, \<^verbatim>\<open>_drop_diff\<close> and \<^verbatim>\<open>_mutate_diff\<close>.\<close>

definition create_diff ::
  "('a \<Rightarrow> error + string) \<Rightarrow> (string \<times> 'a) list \<Rightarrow> (string \<times> 'a) list \<Rightarrow> error + string list" where
  "create_diff create_stmt source target =
     collect (\<lambda>k. case getitem target k of
                     Inl e \<Rightarrow> Inl e
                   | Inr obj \<Rightarrow>
                       (case create_stmt obj of Inl e \<Rightarrow> Inl e | Inr statement \<Rightarrow> Inr [statement]))
       (filter (\<lambda>k. \<not> has_key source k) (keys target))"

definition drop_diff ::
  "('a \<Rightarrow> error + string) \<Rightarrow> (string \<times> 'a) list \<Rightarrow> (string \<times> 'a) list \<Rightarrow> error + string list" where
  "drop_diff drop_stmt source target =
     collect (\<lambda>k. case getitem source k of
                     Inl e \<Rightarrow> Inl e
                   | Inr obj \<Rightarrow>
                       (case drop_stmt obj of Inl e \<Rightarrow> Inl e | Inr statement \<Rightarrow> Inr [statement]))
       (filter (\<lambda>k. \<not> has_key target k) (keys source))"

definition mutate_diff ::
  "('a \<Rightarrow> 'a \<Rightarrow> error + string option) \<Rightarrow> (string \<times> 'a) list \<Rightarrow> (string \<times> 'a) list
     \<Rightarrow> error + string list" where
  "mutate_diff mutate_fn source target =
     collect (\<lambda>k. if has_key target k
                   then (case getitem source k of
                           Inl e \<Rightarrow> Inl e
                         | Inr s \<Rightarrow>
                             (case getitem target k of
                                Inl e \<Rightarrow> Inl e
                              | Inr t \<Rightarrow>
                                  (case mutate_fn s t of
                                     Inl e \<Rightarrow> Inl e
                                   | Inr statement \<Rightarrow> Inr (append_if statement))))
                   else Inr [])
       (keys source)"

text \<open>
  The loops of \<^verbatim>\<open>mutate_namespace_stmt\<close> and \<^verbatim>\<open>mutate_catalog_stmt\<close> that append
  the optional statement \<open>stmt_of\<close> of every child of \<open>present\<close> whose key is not in
  \<open>other\<close>.
\<close>

definition optional_diff ::
  "('a \<Rightarrow> error + string option) \<Rightarrow> (string \<times> 'a) list \<Rightarrow> (string \<times> 'a) list
     \<Rightarrow> error + string list" where
  "optional_diff stmt_of present other =
     collect (\<lambda>k. if \<not> has_key other k
                   then (case getitem present k of
                           Inl e \<Rightarrow> Inl e
                         | Inr obj \<Rightarrow>
                             (case stmt_of obj of
                                Inl e \<Rightarrow> Inl e
                              | Inr statement \<Rightarrow> Inr (append_if statement)))
                   else Inr [])
       (keys present)"

text \<open>
  \<^verbatim>\<open>statements.extend(step)\<close>, where building the statements so far or the step may
  have raised: the earlier exception wins.
\<close>

fun extend :: "error + string list \<Rightarrow> error + string list \<Rightarrow> error + string list" where
  "extend (Inl e) step = Inl e"
| "extend (Inr statements) (Inl e) = Inl e"
| "extend (Inr statements) (Inr items) = Inr (statements @ items)"

definition namespace_changes ::
  "'ty Rendering \<Rightarrow> ('ty Column \<Rightarrow> 'ty Column \<Rightarrow> error + string option)
     \<Rightarrow> 'ty Namespace \<Rightarrow> 'ty Namespace \<Rightarrow> error + string list" where
  "namespace_changes R mutate_column source target =
     (case check_identity (str_local R) (ns_name source) (ns_name target) of
        Inl e \<Rightarrow> Inl e
      | Inr _ \<Rightarrow>
          foldl extend (Inr [])
            [create_diff (enum_create_stmt R) (ns_enums source) (ns_enums target),
             create_diff (struct_create_stmt R) (ns_structs source) (ns_structs target),
             create_diff (table_create_stmt R) (ns_tables source) (ns_tables target),
             optional_diff (table_add_constraints_stmt R) (ns_tables target) (ns_tables source),
             mutate_diff (mutate_enum_stmt R) (ns_enums source) (ns_enums target),
             mutate_diff (mutate_struct_stmt R) (ns_structs source) (ns_structs target),
             mutate_diff (mutate_table_stmt R mutate_column) (ns_tables source) (ns_tables target),
             drop_diff (table_drop_stmt R) (ns_tables source) (ns_tables target),
             drop_diff (struct_drop_stmt R) (ns_structs source) (ns_structs target),
             drop_diff (enum_drop_stmt R) (ns_enums source) (ns_enums target)])"

definition mutate_namespace_stmt ::
  "'ty Rendering \<Rightarrow> ('ty Column \<Rightarrow> 'ty Column \<Rightarrow> error + string option)
     \<Rightarrow> 'ty Namespace \<Rightarrow> 'ty Namespace \<Rightarrow> error + string option" where
  "mutate_namespace_stmt R mutate_column source target =
     (case namespace_changes R mutate_column source target of
        Inl e \<Rightarrow> Inl e
      | Inr statements \<Rightarrow>
          Inr (if statements \<noteq> [] then Some (join ''\<newline>'' statements) else None))"

definition catalog_changes ::
  "'ty Rendering \<Rightarrow> ('ty Column \<Rightarrow> 'ty Column \<Rightarrow> error + string option)
     \<Rightarrow> 'ty Catalog \<Rightarrow> 'ty Catalog \<Rightarrow> error + string list" where
  "catalog_changes R mutate_column source target =
     foldl extend (Inr [])
       [create_diff (namespace_create_stmt R) (cat_namespaces source) (cat_namespaces target),
        optional_diff (namespace_add_constraints_stmt R)
          (cat_namespaces target) (cat_namespaces source),
        mutate_diff (mutate_namespace_stmt R mutate_column)
          (cat_namespaces source) (cat_namespaces target),
        optional_diff (namespace_drop_constraints_stmt R)
          (cat_namespaces source) (cat_namespaces target),
        drop_diff (namespace_drop_stmt R) (cat_namespaces source) (cat_namespaces target)]"

definition mutate_catalog_stmt ::
  "'ty Rendering \<Rightarrow> ('ty Column \<Rightarrow> 'ty Column \<Rightarrow> error + string option)
     \<Rightarrow> 'ty Catalog \<Rightarrow> 'ty Catalog \<Rightarrow> error + string option" where
  "mutate_catalog_stmt R mutate_column source target =
     (case catalog_changes R mutate_column source target of
        Inl e \<Rightarrow> Inl e
      | Inr statements \<Rightarrow>
          Inr (if statements \<noteq> [] then Some (join ''\<newline>'' statements) else None))"

section \<open>Well-formed trees\<close>

text \<open>
  Section 3 of the specification keys every mapping by the logical name of the child.
  The mutator relies on it for the columns of a table, which it looks up by
  \<^verbatim>\<open>column.name.id\<close>: each key is the identifier of its column, and no key occurs
  twice (a Python \<^verbatim>\<open>dict\<close> holds a key once).
\<close>

definition keyed_by_name :: "(string \<times> 'ty Column) list \<Rightarrow> bool" where
  "keyed_by_name columns \<longleftrightarrow>
     distinct (keys columns) \<and> list_all (\<lambda>(k, c). k = local_id (col_name c)) columns"

definition wf_table :: "'ty Table \<Rightarrow> bool" where
  "wf_table t \<longleftrightarrow> keyed_by_name (tbl_columns t)"

definition wf_namespace :: "'ty Namespace \<Rightarrow> bool" where
  "wf_namespace n \<longleftrightarrow> list_all (\<lambda>(k, t). wf_table t) (ns_tables n)"

definition wf_catalog :: "'ty Catalog \<Rightarrow> bool" where
  "wf_catalog c \<longleftrightarrow> list_all (\<lambda>(k, n). wf_namespace n) (cat_namespaces c)"

section \<open>An example rendering and example trees\<close>

text \<open>
  Modelled from the spec: a rendering in the base forms of sections 4.1 and 4.2 of the
  specification (identifiers in double quotes, a qualified identifier with each part
  quoted, a column as name, type and optional clauses), standing for the renderers of
  \<^verbatim>\<open>formation/object_types.py\<close>, which are not among the sources. It serves to run
  the mutator on concrete trees; the general theorems hold for every rendering \<open>R\<close>.
\<close>

definition quote_id :: "string \<Rightarrow> string" where
  "quote_id s = [dquote] @ s @ [dquote]"

definition example_str_qualified :: "QualifiedId \<Rightarrow> string" where
  "example_str_qualified q =
     (case scope_id q of
        None \<Rightarrow> quote_id (qualified_id q)
      | Some ns \<Rightarrow> quote_id ns @ ''.'' @ quote_id (qualified_id q))"

definition example_column_spec :: "string Column \<Rightarrow> string" where
  "example_column_spec c =
     quote_id (local_id (col_name c)) @ '' '' @ col_data_type c
     @ (if \<not> col_nullable c then '' NOT NULL'' else [])
     @ (case col_default c of None \<Rightarrow> [] | Some d \<Rightarrow> '' DEFAULT '' @ d)
     @ (if col_identity c then '' GENERATED BY DEFAULT AS IDENTITY'' else [])"

definition example_add_constraints :: "string Table \<Rightarrow> string option" where
  "example_add_constraints t =
     (let deferred = filter con_is_alter_table (tbl_constraints t)
      in if deferred = [] then None
         else Some (''ALTER TABLE '' @ example_str_qualified (tbl_name t) @ '' ''
                    @ join '', '' (map (\<lambda>c. ''ADD CONSTRAINT '' @ con_spec c) deferred) @ '';''))"

definition example_drop_constraints :: "string Table \<Rightarrow> string option" where
  "example_drop_constraints t =
     (let deferred = filter con_is_alter_table (tbl_constraints t)
      in if deferred = [] then None
         else Some (''ALTER TABLE '' @ example_str_qualified (tbl_name t) @ '' ''
                    @ join '', '' (map (\<lambda>c. ''DROP CONSTRAINT '' @ quote_id (local_id (con_name c)))
                                     deferred) @ '';''))"

definition join_optional :: "string option list \<Rightarrow> string option" where
  "join_optional xs =
     (let statements = concat (map append_if xs)
      in if statements = [] then None else Some (join ''\<newline>'' statements))"

definition example_rendering :: "string Rendering" where
  "example_rendering =
     \<lparr> str_local = (\<lambda>n. quote_id (local_id n)),
       str_qualified = example_str_qualified,
       str_data_type = (\<lambda>t. t),
       str_member = (\<lambda>m. quote_id (local_id (mem_name m)) @ '' '' @ mem_data_type m),
       sql_constant = sql_quoted_string,
       default_expr = (\<lambda>c. format_optional (col_default c)),
       column_create_stmt = (\<lambda>c. Inr (''ADD COLUMN '' @ example_column_spec c)),
       column_drop_stmt = (\<lambda>c. Inr (''DROP COLUMN '' @ quote_id (local_id (col_name c)))),
       table_create_stmt =
         (\<lambda>t. Inr (''CREATE TABLE '' @ example_str_qualified (tbl_name t) @ '' (''
                    @ join '', '' (map example_column_spec (values_of (tbl_columns t)))
                    @ '');'')),
       table_drop_stmt = (\<lambda>t. Inr (''DROP TABLE '' @ example_str_qualified (tbl_name t) @ '';'')),
       table_add_constraints_stmt = (\<lambda>t. Inr (example_add_constraints t)),
       alter_table_stmt =
         (\<lambda>t statements. Inr (''ALTER TABLE '' @ example_str_qualified (tbl_name t)
                                @ ''\<newline>'' @ join '',\<newline>'' statements @ '';'')),
       enum_create_stmt =
         (\<lambda>e. Inr (''CREATE TYPE '' @ example_str_qualified (enum_name e) @ '' AS ENUM (''
                    @ join '', '' (map sql_quoted_string (enum_values e)) @ '');'')),
       enum_drop_stmt = (\<lambda>e. Inr (''DROP TYPE '' @ example_str_qualified (enum_name e) @ '';'')),
       struct_create_stmt =
         (\<lambda>s. Inr (''CREATE TYPE '' @ example_str_qualified (struct_name s) @ '' AS (''
                    @ join '', '' (map (\<lambda>m. quote_id (local_id (mem_name m)) @ '' '' @ mem_data_type m)
                                     (values_of (struct_members s)))
                    @ '');'')),
       struct_drop_stmt = (\<lambda>s. Inr (''DROP TYPE '' @ example_str_qualified (struct_name s) @ '';'')),
       namespace_create_stmt = (\<lambda>n. Inr (''CREATE SCHEMA '' @ quote_id (local_id (ns_name n)) @ '';'')),
       namespace_drop_stmt = (\<lambda>n. Inr (''DROP SCHEMA '' @ quote_id (local_id (ns_name n)) @ '';'')),
       namespace_add_constraints_stmt =
         (\<lambda>n. Inr (join_optional (map example_add_constraints (values_of (ns_tables n))))),
       namespace_drop_constraints_stmt =
         (\<lambda>n. Inr (join_optional (map example_drop_constraints (values_of (ns_tables n))))) \<rparr>"

definition column :: "string \<Rightarrow> string \<Rightarrow> bool \<Rightarrow> string Column" where
  "column name ty nullable =
     \<lparr> col_name = LocalId name, col_data_type = ty, col_nullable = nullable,
       col_default = None, col_identity = False, col_description = None \<rparr>"

definition table :: "string \<Rightarrow> string Column list \<Rightarrow> Constraint list \<Rightarrow> string Table" where
  "table name columns constraints =
     \<lparr> tbl_name = QualifiedId None name,
       tbl_columns = map (\<lambda>c. (local_id (col_name c), c)) columns,
       tbl_primary_key = LocalId ''id'',
       tbl_constraints = constraints,
       tbl_description = None \<rparr>"

definition users_source :: "string Table" where
  "users_source = table ''users'' [column ''id'' ''int'' False, column ''name'' ''text'' True] []"

definition users_target :: "string Table" where
  "users_target =
     table ''users''
       [column ''id'' ''int'' False, column ''name'' ''text'' False, column ''email'' ''text'' True] []"


section \<open>The specification's vocabulary\<close>

text \<open>
  Section 4.4 of the specification speaks of the children present only in the target,
  those present only in the source and those present in both. These definitions follow
  its words, not the code, and serve to state what the mutator returns: \<open>only_in\<close>
  lists the children of one mapping whose name is not a key of the other, in the order
  of the mapping; \<open>in_both\<close> pairs every source child with the target child of the same
  name, in the order of the source.
\<close>

definition only_in :: "(string \<times> 'a) list \<Rightarrow> (string \<times> 'b) list \<Rightarrow> 'a list" where
  "only_in children other = map snd (filter (\<lambda>(k, v). k \<notin> set (keys other)) children)"

definition in_both :: "(string \<times> 'a) list \<Rightarrow> (string \<times> 'b) list \<Rightarrow> ('a \<times> 'b) list" where
  "in_both source target =
     concat (map (\<lambda>(k, s). case map_of target k of None \<Rightarrow> [] | Some t \<Rightarrow> [(s, t)]) source)"

text \<open>
  What one target column contributes to the fragments of a table: its create fragment
  when its name is not a column of the source, and otherwise the result of diffing it
  with the source column of that name (nothing when that result is empty).
\<close>

definition target_column_fragment ::
  "'ty Rendering \<Rightarrow> ('ty Column \<Rightarrow> 'ty Column \<Rightarrow> error + string option)
     \<Rightarrow> 'ty Table \<Rightarrow> 'ty Column \<Rightarrow> string list \<Rightarrow> bool" where
  "target_column_fragment R mutate_column source c fragment \<longleftrightarrow>
     (case map_of (tbl_columns source) (local_id (col_name c)) of
        None \<Rightarrow> map Inr fragment = [column_create_stmt R c]
      | Some source_column \<Rightarrow>
          (\<exists>statement. mutate_column source_column c = Inr statement
             \<and> fragment = append_if statement))"


definition mood_ab :: EnumType where
  "mood_ab = \<lparr> enum_name = QualifiedId None ''mood'', enum_values = [''a'', ''b''] \<rparr>"

definition mood_abc :: EnumType where
  "mood_abc = \<lparr> enum_name = QualifiedId None ''mood'', enum_values = [''a'', ''b'', ''c''] \<rparr>"

definition described :: "string Column" where
  "described = (column ''name'' ''text'' True) \<lparr> col_description := Some ''full name'' \<rparr>"

definition member :: "string \<Rightarrow> string \<Rightarrow> string StructMember" where
  "member name ty = \<lparr> mem_name = LocalId name, mem_data_type = ty, mem_description = None \<rparr>"

definition struct :: "string \<Rightarrow> string StructMember list \<Rightarrow> string StructType" where
  "struct name members =
     \<lparr> struct_name = QualifiedId None name,
       struct_members = map (\<lambda>m. (local_id (mem_name m), m)) members \<rparr>"

definition point2 :: "string StructType" where
  "point2 = struct ''point'' [member ''x'' ''real'', member ''y'' ''real'']"

definition point3 :: "string StructType" where
  "point3 = struct ''point'' [member ''x'' ''real'', member ''y'' ''real'', member ''z'' ''real'']"

text \<open>A rendering whose column renderers raise, as a dialect's may.\<close>

definition failing_rendering :: "string Rendering" where
  "failing_rendering =
     example_rendering
       \<lparr> column_create_stmt :=
           (\<lambda>c. Inl (ColumnFormationError ''unsupported data type'' (col_name c))),
         column_drop_stmt :=
           (\<lambda>c. Inl (ColumnFormationError ''column in use'' (col_name c))) \<rparr>"

definition fk_author :: Constraint where
  "fk_author =
     \<lparr> con_name = LocalId ''fk_author'', con_is_alter_table = True,
       con_spec = ''fk_author FOREIGN KEY (author) REFERENCES users (id)'' \<rparr>"

definition fk_editor :: Constraint where
  "fk_editor =
     \<lparr> con_name = LocalId ''fk_editor'', con_is_alter_table = True,
       con_spec = ''fk_editor FOREIGN KEY (editor) REFERENCES users (id)'' \<rparr>"

definition ck_title :: Constraint where
  "ck_title =
     \<lparr> con_name = LocalId ''ck_title'', con_is_alter_table = False,
       con_spec = ''ck_title CHECK (title <> 0)'' \<rparr>"

definition posts :: "Constraint list \<Rightarrow> string Table" where
  "posts constraints = table ''posts'' [column ''id'' ''int'' False] constraints"

definition shop_source :: "string Namespace" where
  "shop_source =
     \<lparr> ns_name = LocalId ''shop'',
       ns_enums = [(''mood'', mood_ab),
                   (''size'', \<lparr> enum_name = QualifiedId None ''size'', enum_values = [''s'', ''l''] \<rparr>)],
       ns_structs = [(''point'', point3), (''pair'', struct ''pair'' [member ''fst'' ''int''])],
       ns_tables = [(''users'', users_source), (''drafts'', table ''drafts'' [column ''id'' ''int'' False] [])] \<rparr>"

definition shop_target :: "string Namespace" where
  "shop_target =
     \<lparr> ns_name = LocalId ''shop'',
       ns_enums = [(''colour'', \<lparr> enum_name = QualifiedId None ''colour'', enum_values = [''red''] \<rparr>),
                   (''mood'', mood_abc)],
       ns_structs = [(''point'', point2), (''address'', struct ''address'' [member ''city'' ''text''])],
       ns_tables = [(''posts'', posts [fk_author]), (''users'', users_target)] \<rparr>"

definition archive :: "string Namespace" where
  "archive =
     \<lparr> ns_name = LocalId ''archive'', ns_enums = [], ns_structs = [],
       ns_tables = [(''posts'', posts [fk_editor])] \<rparr>"

definition catalog_source :: "string Catalog" where
  "catalog_source = \<lparr> cat_namespaces = [(''archive'', archive), (''shop'', shop_source)] \<rparr>"

definition catalog_target :: "string Catalog" where
  "catalog_target =
     \<lparr> cat_namespaces = [(''shop'', shop_target), (''blog'', archive \<lparr> ns_name := LocalId ''blog'' \<rparr>)] \<rparr>"

definition accounts_source :: "string Table" where
  "accounts_source =
     table ''accounts''
       [column ''id'' ''int'' False, column ''legacy'' ''text'' True,
        column ''balance'' ''int'' True] []"

definition accounts_target :: "string Table" where
  "accounts_target =
     table ''accounts''
       [column ''id'' ''int'' False, column ''balance'' ''int'' False,
        column ''email'' ''text'' True] [fk_author]"

text \<open>A column mutator that raises on a change of data type, as a dialect's may.\<close>

definition strict_mutate_column :: "string Column \<Rightarrow> string Column \<Rightarrow> error + string option" where
  "strict_mutate_column source target =
     (if col_data_type source \<noteq> col_data_type target
      then Inl (ColumnFormationError ''cannot change data type'' (col_name target))
      else mutate_column_stmt example_rendering source target)"

definition users_retyped :: "string Table" where
  "users_retyped =
     table ''users'' [column ''id'' ''int'' False, column ''name'' ''varchar'' True] []"


section \<open>Auxiliary facts\<close>

lemmas example_defs =
  users_source_def users_target_def table_def column_def values_of_def keys_def has_key_def
  example_rendering_def failing_rendering_def quote_id_def example_str_qualified_def
  example_column_spec_def

lemmas tree_defs =
  shop_source_def shop_target_def archive_def catalog_source_def catalog_target_def
  accounts_source_def accounts_target_def posts_def mood_ab_def mood_abc_def
  point2_def point3_def struct_def member_def fk_author_def fk_editor_def ck_title_def

lemmas mutator_defs =
  namespace_changes_def catalog_changes_def table_changes_def check_identity_def
  create_diff_def drop_diff_def mutate_diff_def optional_diff_def getitem_def
  mutate_namespace_stmt_def mutate_table_stmt_def mutate_enum_stmt_def mutate_struct_stmt_def
  mutate_column_stmt_def column_changes_def create_or_update_column_def drop_column_def
  constraint_changes_def example_add_constraints_def example_drop_constraints_def
  join_optional_def sql_quoted_string_def control_char_def double_apostrophe_def

lemmas spec_defs = only_in_def in_both_def target_column_fragment_def

lemma escaped_no_control:
  "\<not> list_ex control_char (concat (map sql_quoted_str_table s))"
  by (induction s) (auto simp: control_char_def sql_quoted_str_table_def)

lemma column_changes_empty_iff:
  "column_changes R source target = [] \<longleftrightarrow>
     col_data_type source = col_data_type target \<and> col_nullable source = col_nullable target
     \<and> col_default source = col_default target \<and> col_identity source = col_identity target"
  by (auto simp: column_changes_def)

lemma join_alter_column_prefix:
  assumes "xs \<noteq> []"
  shows "take 13 (join sep (map (\<lambda>s. ''ALTER COLUMN '' @ f s) xs)) = ''ALTER COLUMN ''"
proof (cases xs)
  case Nil
  with assms show ?thesis by simp
next
  case (Cons x ys)
  then show ?thesis by (cases ys) simp_all
qed

lemma Column_eq_iff:
  fixes source target :: "'ty Column"
  shows "source = target \<longleftrightarrow>
     col_name source = col_name target \<and> col_data_type source = col_data_type target
     \<and> col_nullable source = col_nullable target \<and> col_default source = col_default target
     \<and> col_identity source = col_identity target
     \<and> col_description source = col_description target"
  by (cases source; cases target) auto

lemma collect_append:
  "collect f (xs @ ys) =
     (case collect f xs of
        Inl e \<Rightarrow> Inl e
      | Inr as \<Rightarrow> (case collect f ys of Inl e \<Rightarrow> Inl e | Inr bs \<Rightarrow> Inr (as @ bs)))"
  by (induction xs) (auto split: sum.splits)

lemma collect_first_error:
  assumes "collect f earlier = Inr fragments" and "f x = Inl e"
  shows "collect f (earlier @ x # later) = Inl e"
  using assms by (simp add: collect_append)

lemma collect_singletons:
  "collect (\<lambda>x. case g x of Inl e \<Rightarrow> Inl e | Inr s \<Rightarrow> Inr [s]) xs = Inr ys
     \<longleftrightarrow> map Inr ys = map g xs"
proof (induction xs arbitrary: ys)
  case Nil
  then show ?case by auto
next
  case (Cons x xs)
  show ?case
  proof (cases "g x")
    case (Inl e)
    then show ?thesis by (cases ys) auto
  next
    case (Inr s)
    show ?thesis
    proof (cases "collect (\<lambda>x. case g x of Inl e \<Rightarrow> Inl e | Inr s \<Rightarrow> Inr [s]) xs")
      case (Inl e)
      with Cons.IH have "map Inr zs \<noteq> map g xs" for zs by simp
      with Inl Inr show ?thesis by (cases ys) auto
    next
      case (Inr zs)
      with Cons.IH have ih: "map Inr ys = map g xs \<longleftrightarrow> zs = ys" for ys by simp
      show ?thesis
        using Inr \<open>g x = Inr s\<close> by (cases ys) (auto simp: ih)
    qed
  qed
qed

lemma collect_list_all2:
  "collect f xs = Inr ys \<longleftrightarrow> (\<exists>frags. list_all2 (\<lambda>x fr. f x = Inr fr) xs frags \<and> ys = concat frags)"
proof (induction xs arbitrary: ys)
  case Nil
  then show ?case by auto
next
  case (Cons x xs)
  show ?case
  proof (cases "f x")
    case (Inl e)
    then show ?thesis by (auto simp: list_all2_Cons1)
  next
    case fx: (Inr fr)
    show ?thesis
    proof (cases "collect f xs")
      case (Inl e)
      with Cons.IH have "\<not> list_all2 (\<lambda>x fr. f x = Inr fr) xs frags" for frags
        by auto
      with Inl fx show ?thesis by (auto simp: list_all2_Cons1)
    next
      case (Inr zs)
      with Cons.IH [of zs] obtain frags where
        frags: "list_all2 (\<lambda>x fr. f x = Inr fr) xs frags" "zs = concat frags"
        by auto
      have unique: "concat frags' = zs" if "list_all2 (\<lambda>x fr. f x = Inr fr) xs frags'" for frags'
        using Cons.IH [of "concat frags'"] that Inr by auto
      show ?thesis
      proof
        assume "collect f (x # xs) = Inr ys"
        with fx Inr have "ys = fr @ zs" by simp
        with fx frags show "\<exists>frags. list_all2 (\<lambda>x fr. f x = Inr fr) (x # xs) frags \<and> ys = concat frags"
          by (intro exI [of _ "fr # frags"]) simp
      next
        assume "\<exists>frags. list_all2 (\<lambda>x fr. f x = Inr fr) (x # xs) frags \<and> ys = concat frags"
        then obtain frags' where f': "list_all2 (\<lambda>x fr. f x = Inr fr) (x # xs) frags'" "ys = concat frags'"
          by blast
        then obtain fr' rest where "frags' = fr' # rest" "f x = Inr fr'"
          "list_all2 (\<lambda>x fr. f x = Inr fr) xs rest"
          by (auto simp: list_all2_Cons1)
        with fx f'(2) unique [of rest] have "ys = fr @ zs" by simp
        with fx Inr show "collect f (x # xs) = Inr ys" by simp
      qed
    qed
  qed
qed

lemma collect_filter:
  "collect (\<lambda>x. if P x then f x else Inr []) xs = collect f (filter P xs)"
  by (induction xs) (auto split: sum.splits)

lemma create_or_update_column_Inr:
  "create_or_update_column R mutate_column source c = Inr fragment
     \<longleftrightarrow> target_column_fragment R mutate_column source c fragment"
  by (auto simp: create_or_update_column_def target_column_fragment_def
      split: option.splits sum.splits)

lemma create_or_update_columns_Inr:
  "collect (create_or_update_column R mutate_column source) columns = Inr updated \<longleftrightarrow>
     (\<exists>fragments. list_all2 (target_column_fragment R mutate_column source) columns fragments
        \<and> updated = concat fragments)"
  by (simp add: collect_list_all2 create_or_update_column_Inr)

lemma drop_columns_Inr:
  "collect (drop_column R target) columns = Inr dropped \<longleftrightarrow>
     map Inr dropped =
       map (column_drop_stmt R)
         (filter (\<lambda>c. local_id (col_name c) \<notin> set (keys (tbl_columns target))) columns)"
proof -
  have "drop_column R target =
      (\<lambda>c. if local_id (col_name c) \<notin> set (keys (tbl_columns target))
            then (case column_drop_stmt R c of Inl e \<Rightarrow> Inl e | Inr s \<Rightarrow> Inr [s])
            else Inr [])"
    by (rule ext) (simp add: drop_column_def has_key_def)
  then show ?thesis
    by (simp add: collect_filter collect_singletons)
qed

lemma table_changes_columns:
  assumes "tbl_name source = tbl_name target"
    and "list_all2 (target_column_fragment R mutate_column source)
           (values_of (tbl_columns target)) fragments"
    and "map Inr dropped =
           map (column_drop_stmt R)
             (filter (\<lambda>c. local_id (col_name c) \<notin> set (keys (tbl_columns target)))
                (values_of (tbl_columns source)))"
  shows "table_changes R mutate_column source target =
     Inr (concat fragments @ dropped @ constraint_changes R source target)"
proof -
  have "collect (create_or_update_column R mutate_column source)
          (values_of (tbl_columns target)) = Inr (concat fragments)"
    using assms(2) by (auto simp: create_or_update_columns_Inr)
  moreover have "collect (drop_column R target) (values_of (tbl_columns source)) = Inr dropped"
    using assms(3) by (simp add: drop_columns_Inr)
  ultimately show ?thesis
    using assms(1) by (simp add: table_changes_def check_identity_def)
qed


section \<open>String literals\<close>

text \<open>
  Claim C9, as amended. \<open>sql_quoted_string\<close> tags the literal with \<open>E\<close> exactly when the
  input holds a backspace, form feed, line feed, carriage return or tab. In a tagged
  literal each of backslash, apostrophe and those five characters is written as a
  backslash escape, so no control character is left between the quotes. In a plain
  literal an apostrophe is doubled and every other character, a backslash included, is
  written as it is.
\<close>

theorem sql_quoted_string_literal:
  "(take 2 (sql_quoted_string s) = ''E'' @ [apostrophe]
      \<longleftrightarrow> (\<exists>c \<in> set s. c = backspace \<or> c = formfeed \<or> c = linefeed \<or> c = carriage_return \<or> c = tab))
   \<and> ((\<exists>c \<in> set s. c = backspace \<or> c = formfeed \<or> c = linefeed \<or> c = carriage_return \<or> c = tab) \<longrightarrow>
        sql_quoted_string s =
          ''E'' @ [apostrophe] @
          concat (map (\<lambda>c. if c = backslash then [backslash, backslash]
                           else if c = apostrophe then [backslash, apostrophe]
                           else if c = backspace then [backslash, CHR ''b'']
                           else if c = formfeed then [backslash, CHR ''f'']
                           else if c = linefeed then [backslash, CHR ''n'']
                           else if c = carriage_return then [backslash, CHR ''r'']
                           else if c = tab then [backslash, CHR ''t'']
                           else [c]) s) @
          [apostrophe]
        \<and> \<not> list_ex control_char (butlast (drop 2 (sql_quoted_string s))))
   \<and> (\<not> (\<exists>c \<in> set s. c = backspace \<or> c = formfeed \<or> c = linefeed \<or> c = carriage_return \<or> c = tab) \<longrightarrow>
        sql_quoted_string s =
          [apostrophe] @
          concat (map (\<lambda>c. if c = apostrophe then [apostrophe, apostrophe] else [c]) s) @
          [apostrophe])"
proof -
  let ?ctl = "\<exists>c \<in> set s. c = backspace \<or> c = formfeed \<or> c = linefeed \<or> c = carriage_return \<or> c = tab"
  have ctl: "list_ex control_char s \<longleftrightarrow> ?ctl"
    by (simp add: list_ex_iff control_char_def)
  have tbl: "sql_quoted_str_table = (\<lambda>c. if c = backslash then [backslash, backslash]
                           else if c = apostrophe then [backslash, apostrophe]
                           else if c = backspace then [backslash, CHR ''b'']
                           else if c = formfeed then [backslash, CHR ''f'']
                           else if c = linefeed then [backslash, CHR ''n'']
                           else if c = carriage_return then [backslash, CHR ''r'']
                           else if c = tab then [backslash, CHR ''t'']
                           else [c])"
    by (rule ext) (simp add: sql_quoted_str_table_def)
  have dbl: "double_apostrophe = (\<lambda>c. if c = apostrophe then [apostrophe, apostrophe] else [c])"
    by (rule ext) (simp add: double_apostrophe_def)
  show ?thesis
  proof (cases "list_ex control_char s")
    case True
    have body: "butlast (drop 2 (sql_quoted_string s)) = concat (map sql_quoted_str_table s)"
      using True by (simp add: sql_quoted_string_def butlast_append)
    have "sql_quoted_string s = ''E'' @ [apostrophe] @ concat (map sql_quoted_str_table s) @ [apostrophe]"
      using True by (simp add: sql_quoted_string_def)
    moreover have "take 2 (sql_quoted_string s) = ''E'' @ [apostrophe]"
      using True by (simp add: sql_quoted_string_def)
    ultimately show ?thesis
      using True ctl body escaped_no_control [of s] by (simp add: tbl [symmetric])
  next
    case False
    have "sql_quoted_string s = [apostrophe] @ concat (map double_apostrophe s) @ [apostrophe]"
      using False by (simp add: sql_quoted_string_def)
    moreover have "take 2 (sql_quoted_string s) \<noteq> ''E'' @ [apostrophe]"
      using False by (simp add: sql_quoted_string_def)
    ultimately show ?thesis
      using False ctl by (simp add: dbl [symmetric])
  qed
qed

text \<open>
  The witness of C9: a text with a tab and a line feed is tagged and escaped, and a text
  with an apostrophe and a backslash but no control character is plain.
\<close>

theorem sql_quoted_string_literal_witness:
  "sql_quoted_string (''a'' @ [tab, apostrophe, backslash, linefeed]) =
     ''E'' @ [apostrophe] @ ''a'' @ [backslash] @ ''t'' @ [backslash, apostrophe]
     @ [backslash, backslash] @ [backslash] @ ''n'' @ [apostrophe]
   \<and> sql_quoted_string (''it'' @ [apostrophe] @ ''s'' @ [backslash]) =
     [apostrophe] @ ''it'' @ [apostrophe, apostrophe] @ ''s'' @ [backslash] @ [apostrophe]"
  using sql_quoted_string_literal [of "''a'' @ [tab, apostrophe, backslash, linefeed]"]
    sql_quoted_string_literal [of "''it'' @ [apostrophe] @ ''s'' @ [backslash]"]
  by simp

text \<open>
  The counterexample to C9 as stated: the input that is one backslash has no control
  character, so the literal is plain and the backslash is not escaped.
\<close>

theorem sql_quoted_string_backslash_plain:
  "sql_quoted_string [backslash] = [apostrophe, backslash, apostrophe]"
  by (simp add: sql_quoted_string_def control_char_def double_apostrophe_def)


section \<open>Enumerations and structures\<close>

text \<open>
  Claim C1. For two enumerations of the same name, \<open>mutate_enum_stmt\<close> raises
  \<open>FormationError\<close>, and returns no statement, whenever a value of the source is not
  a value of the target. Otherwise, when the target has values that the source has
  not, it returns one \<open>ALTER TYPE\<close> statement with one \<open>ADD VALUE\<close> clause for each
  of them, in the order of the target; and it returns nothing when there is no such
  value.
\<close>

theorem mutate_enum_stmt_additive:
  assumes "enum_name source = enum_name target"
  shows "mutate_enum_stmt R source target =
     (if \<exists>v \<in> set (enum_values source). v \<notin> set (enum_values target)
      then Inl (FormationError
                 (''operation not permitted; cannot drop values in an enumeration: ''
                  @ concat (filter (\<lambda>v. v \<notin> set (enum_values target)) (enum_values source))))
      else if \<exists>v \<in> set (enum_values target). v \<notin> set (enum_values source)
      then Inr (Some
             (''ALTER TYPE '' @ str_qualified R (enum_name source) @ ''\<newline>''
              @ join '',\<newline>''
                  (map (\<lambda>v. ''ADD VALUE '' @ sql_constant R v)
                     (filter (\<lambda>v. v \<notin> set (enum_values source)) (enum_values target)))
              @ '';''))
      else Inr None)"
proof -
  have removed: "filter (\<lambda>v. v \<notin> set (enum_values target)) (enum_values source) \<noteq> []
      \<longleftrightarrow> (\<exists>v \<in> set (enum_values source). v \<notin> set (enum_values target))"
    by (simp add: filter_empty_conv)
  have added: "filter (\<lambda>v. v \<notin> set (enum_values source)) (enum_values target) \<noteq> []
      \<longleftrightarrow> (\<exists>v \<in> set (enum_values target). v \<notin> set (enum_values source))"
    by (simp add: filter_empty_conv)
  have "check_identity (str_qualified R) (enum_name source) (enum_name target) = Inr ()"
    using assms by (simp add: check_identity_def)
  then show ?thesis
    unfolding mutate_enum_stmt_def Let_def removed added by simp
qed

text \<open>
  The witness of C1, on the examples of the specification: from \<open>{a, b}\<close> to
  \<open>{a, b, c}\<close> one \<open>ADD VALUE\<close> clause, from \<open>{a, b, c}\<close> to \<open>{a, b}\<close> an error, and
  nothing from \<open>{a, b}\<close> to itself.
\<close>

theorem mutate_enum_stmt_additive_witness:
  "mutate_enum_stmt example_rendering mood_ab mood_abc =
     Inr (Some (''ALTER TYPE '' @ [dquote] @ ''mood'' @ [dquote] @ ''\<newline>''
                @ ''ADD VALUE '' @ [apostrophe] @ ''c'' @ [apostrophe] @ '';''))
   \<and> mutate_enum_stmt example_rendering mood_abc mood_ab =
     Inl (FormationError ''operation not permitted; cannot drop values in an enumeration: c'')
   \<and> mutate_enum_stmt example_rendering mood_ab mood_ab = Inr None"
proof -
  have same: "enum_name mood_ab = enum_name mood_abc" "enum_name mood_abc = enum_name mood_ab"
     "enum_name mood_ab = enum_name mood_ab"
    by (simp_all add: mood_ab_def mood_abc_def)
  show ?thesis
    using mutate_enum_stmt_additive [OF same(1), of example_rendering]
      mutate_enum_stmt_additive [OF same(2), of example_rendering]
      mutate_enum_stmt_additive [OF same(3), of example_rendering]
    by (simp add: mood_ab_def mood_abc_def example_rendering_def example_str_qualified_def
        quote_id_def sql_quoted_string_def control_char_def double_apostrophe_def)
qed


text \<open>
  Claim C4 fails on the code. The loop of \<open>mutate_struct_stmt\<close> over the target members
  tests each of them against the target's own members, so no \<open>ADD ATTRIBUTE\<close> fragment
  is ever appended: for a target with the new member \<open>z\<close> the method returns nothing.
\<close>

theorem mutate_struct_stmt_added_member:
  "mutate_struct_stmt example_rendering point2 point3 = Inr None"
  by (simp add: mutate_struct_stmt_def check_identity_def point2_def point3_def struct_def
      member_def values_of_def)

text \<open>What the method does return for two structures of the same name.\<close>

lemma mutate_struct_stmt_drops_only:
  assumes "struct_name source = struct_name target"
  shows "mutate_struct_stmt R source target =
     (let dropped = filter (\<lambda>m. m \<notin> set (values_of (struct_members target)))
                      (values_of (struct_members source))
      in if dropped = [] then Inr None
         else Inr (Some (''ALTER TYPE '' @ str_qualified R (struct_name source) @ ''\<newline>''
                         @ join '',\<newline>''
                             (map (\<lambda>m. ''DROP ATTRIBUTE '' @ str_local R (mem_name m)) dropped)
                         @ '';\<newline>'')))"
  using assms by (simp add: mutate_struct_stmt_def check_identity_def Let_def)


section \<open>Columns\<close>

text \<open>
  Claim C5 fails on the code. \<open>mutate_column_stmt\<close> does not call \<open>check_identity\<close>:
  for a source column \<open>a\<close> and a target column \<open>b\<close> it returns a clause that alters
  \<open>a\<close>, and it returns nothing when the two differ in their names only.
\<close>

theorem mutate_column_stmt_no_identity_check:
  "mutate_column_stmt example_rendering (column ''a'' ''text'' True) (column ''b'' ''text'' False)
     = Inr (Some (''ALTER COLUMN '' @ [dquote] @ ''a'' @ [dquote] @ '' SET NOT NULL''))
   \<and> mutate_column_stmt example_rendering (column ''a'' ''text'' True) (column ''b'' ''text'' True)
     = Inr None"
  by (simp add: column_def mutate_column_stmt_def column_changes_def example_rendering_def
      quote_id_def)

text \<open>
  The methods for enumerations, structures, tables and namespaces do raise
  \<open>FormationError\<close> on two different names.
\<close>

lemma mutate_stmt_checks_identity:
  "enum_name e \<noteq> enum_name e' \<Longrightarrow>
     mutate_enum_stmt R e e' =
       Inl (FormationError (''object mismatch: '' @ str_qualified R (enum_name e) @ '' != ''
                            @ str_qualified R (enum_name e')))"
  "struct_name s \<noteq> struct_name s' \<Longrightarrow>
     mutate_struct_stmt R s s' =
       Inl (FormationError (''object mismatch: '' @ str_qualified R (struct_name s) @ '' != ''
                            @ str_qualified R (struct_name s')))"
  "tbl_name t \<noteq> tbl_name t' \<Longrightarrow>
     mutate_table_stmt R mc t t' =
       Inl (FormationError (''object mismatch: '' @ str_qualified R (tbl_name t) @ '' != ''
                            @ str_qualified R (tbl_name t')))"
  "ns_name n \<noteq> ns_name n' \<Longrightarrow>
     mutate_namespace_stmt R mc n n' =
       Inl (FormationError (''object mismatch: '' @ str_local R (ns_name n) @ '' != ''
                            @ str_local R (ns_name n')))"
  by (simp_all add: mutate_enum_stmt_def mutate_struct_stmt_def mutate_table_stmt_def
      table_changes_def mutate_namespace_stmt_def namespace_changes_def check_identity_def)


text \<open>
  Claim C6, as amended. Two columns are equal exactly when name, data type,
  nullability, default, identity and description all agree. For two columns of the
  same name, \<open>mutate_column_stmt\<close> returns nothing exactly when data type,
  nullability, default and identity agree, so a difference in the description alone
  gives nothing; a difference in one of these four gives a result that starts with
  \<open>ALTER COLUMN\<close>.
\<close>

theorem mutate_column_stmt_structural:
  fixes source target :: "'ty Column"
  shows
  "(source = target \<longleftrightarrow>
      col_name source = col_name target \<and> col_data_type source = col_data_type target
      \<and> col_nullable source = col_nullable target \<and> col_default source = col_default target
      \<and> col_identity source = col_identity target
      \<and> col_description source = col_description target)
   \<and> (col_name source = col_name target \<longrightarrow>
        (mutate_column_stmt R source target = Inr None \<longleftrightarrow>
           col_data_type source = col_data_type target
           \<and> col_nullable source = col_nullable target
           \<and> col_default source = col_default target
           \<and> col_identity source = col_identity target)
        \<and> (mutate_column_stmt R source target \<noteq> Inr None \<longrightarrow>
           (\<exists>clause. mutate_column_stmt R source target = Inr (Some clause)
              \<and> take 13 clause = ''ALTER COLUMN '')))"
proof -
  let ?same = "col_data_type source = col_data_type target \<and> col_nullable source = col_nullable target
      \<and> col_default source = col_default target \<and> col_identity source = col_identity target"
  have none: "mutate_column_stmt R source target = Inr None \<longleftrightarrow> ?same"
  proof (cases "source = target")
    case True
    then show ?thesis by (simp add: mutate_column_stmt_def)
  next
    case False
    then show ?thesis
      by (simp add: mutate_column_stmt_def Let_def column_changes_empty_iff)
  qed
  have some: "\<exists>clause. mutate_column_stmt R source target = Inr (Some clause)
         \<and> take 13 clause = ''ALTER COLUMN ''"
    if "mutate_column_stmt R source target \<noteq> Inr None"
  proof -
    from that have ne: "source \<noteq> target" "column_changes R source target \<noteq> []"
      by (auto simp: mutate_column_stmt_def Let_def split: if_splits)
    have "take 13 (join '',\<newline>''
            (map (\<lambda>s. ''ALTER COLUMN '' @ (str_local R (col_name source) @ '' '' @ s))
               (column_changes R source target))) = ''ALTER COLUMN ''"
      using ne(2) by (rule join_alter_column_prefix)
    then show ?thesis
      using ne by (simp add: mutate_column_stmt_def Let_def)
  qed
  show ?thesis
    using none some Column_eq_iff [of source target] by blast
qed

text \<open>
  The witness of C6: for two columns named \<open>name\<close>, a change of nullability gives an
  \<open>ALTER COLUMN\<close> clause.
\<close>

theorem mutate_column_stmt_structural_witness:
  "mutate_column_stmt example_rendering (column ''name'' ''text'' True) (column ''name'' ''text'' False)
     = Inr (Some (''ALTER COLUMN '' @ [dquote] @ ''name'' @ [dquote] @ '' SET NOT NULL''))
   \<and> take 13 (''ALTER COLUMN '' @ [dquote] @ ''name'' @ [dquote] @ '' SET NOT NULL'') = ''ALTER COLUMN ''"
proof -
  have run: "mutate_column_stmt example_rendering (column ''name'' ''text'' True) (column ''name'' ''text'' False)
     = Inr (Some (''ALTER COLUMN '' @ [dquote] @ ''name'' @ [dquote] @ '' SET NOT NULL''))"
    by (simp add: column_def mutate_column_stmt_def column_changes_def example_rendering_def quote_id_def)
  then have "mutate_column_stmt example_rendering (column ''name'' ''text'' True) (column ''name'' ''text'' False) \<noteq> Inr None"
    by simp
  moreover have "col_name (column ''name'' ''text'' True) = col_name (column ''name'' ''text'' False)"
    by (simp add: column_def)
  ultimately have "\<exists>clause. mutate_column_stmt example_rendering (column ''name'' ''text'' True) (column ''name'' ''text'' False) = Inr (Some clause)
      \<and> take 13 clause = ''ALTER COLUMN ''"
    using mutate_column_stmt_structural [of "column ''name'' ''text'' True" "column ''name'' ''text'' False" example_rendering]
    by blast
  with run show ?thesis by simp
qed

text \<open>
  The counterexample to C6 as stated: two columns of the same name that differ in their
  description are not equal, and \<open>mutate_column_stmt\<close> returns nothing for them.
\<close>

theorem mutate_column_stmt_description_only:
  "column ''name'' ''text'' True \<noteq> described
   \<and> mutate_column_stmt example_rendering (column ''name'' ''text'' True) described = Inr None"
  by (simp add: described_def column_def mutate_column_stmt_def column_changes_def)


text \<open>
  Claim C7. For two columns that differ in exactly one of data type, nullability,
  default and identity, the list of changes has one element and \<open>mutate_column_stmt\<close>
  returns one \<open>ALTER COLUMN\<close> fragment, which names that attribute only:
  \<open>SET DATA TYPE\<close>; \<open>SET NOT NULL\<close> or \<open>DROP NOT NULL\<close>; \<open>DROP DEFAULT\<close> when the
  target has no default and \<open>SET DEFAULT\<close> otherwise; \<open>DROP IDENTITY\<close> or
  \<open>ADD GENERATED BY DEFAULT AS IDENTITY\<close>.
\<close>

theorem mutate_column_stmt_single_change:
  fixes source target :: "'ty Column"
  shows
  "(col_data_type source \<noteq> col_data_type target \<and> col_nullable source = col_nullable target
      \<and> col_default source = col_default target \<and> col_identity source = col_identity target
    \<longrightarrow> column_changes R source target =
          [''SET DATA TYPE '' @ str_data_type R (col_data_type target)]
        \<and> mutate_column_stmt R source target =
          Inr (Some (''ALTER COLUMN '' @ str_local R (col_name source) @ '' ''
                     @ ''SET DATA TYPE '' @ str_data_type R (col_data_type target))))
   \<and> (col_data_type source = col_data_type target \<and> col_nullable source \<noteq> col_nullable target
      \<and> col_default source = col_default target \<and> col_identity source = col_identity target
    \<longrightarrow> column_changes R source target =
          [if col_nullable target then ''DROP NOT NULL'' else ''SET NOT NULL'']
        \<and> mutate_column_stmt R source target =
          Inr (Some (''ALTER COLUMN '' @ str_local R (col_name source) @ '' ''
                     @ (if col_nullable target then ''DROP NOT NULL'' else ''SET NOT NULL''))))
   \<and> (col_data_type source = col_data_type target \<and> col_nullable source = col_nullable target
      \<and> col_default source \<noteq> col_default target \<and> col_identity source = col_identity target
    \<longrightarrow> column_changes R source target =
          [case col_default target of None \<Rightarrow> ''DROP DEFAULT'' | Some d \<Rightarrow> ''SET DEFAULT '' @ d]
        \<and> mutate_column_stmt R source target =
          Inr (Some (''ALTER COLUMN '' @ str_local R (col_name source) @ '' ''
                     @ (case col_default target of
                          None \<Rightarrow> ''DROP DEFAULT'' | Some d \<Rightarrow> ''SET DEFAULT '' @ d))))
   \<and> (col_data_type source = col_data_type target \<and> col_nullable source = col_nullable target
      \<and> col_default source = col_default target \<and> col_identity source \<noteq> col_identity target
    \<longrightarrow> column_changes R source target =
          [if col_identity target then ''ADD GENERATED BY DEFAULT AS IDENTITY''
           else ''DROP IDENTITY'']
        \<and> mutate_column_stmt R source target =
          Inr (Some (''ALTER COLUMN '' @ str_local R (col_name source) @ '' ''
                     @ (if col_identity target then ''ADD GENERATED BY DEFAULT AS IDENTITY''
                        else ''DROP IDENTITY''))))"
proof -
  have stmt: "mutate_column_stmt R source target =
      Inr (Some (''ALTER COLUMN '' @ str_local R (col_name source) @ '' '' @ change))"
    if "column_changes R source target = [change]" for change
  proof -
    have "column_changes R source source = []"
      by (cases "col_default source") (simp_all add: column_changes_def)
    with that have "source \<noteq> target"
      by auto
    with that show ?thesis
      by (simp add: mutate_column_stmt_def)
  qed
  have data_type: "column_changes R source target =
      [''SET DATA TYPE '' @ str_data_type R (col_data_type target)]"
    if "col_data_type source \<noteq> col_data_type target" "col_nullable source = col_nullable target"
      "col_default source = col_default target" "col_identity source = col_identity target"
    using that by (cases "col_default target") (simp_all add: column_changes_def)
  have nullable: "column_changes R source target =
      [if col_nullable target then ''DROP NOT NULL'' else ''SET NOT NULL'']"
    if "col_data_type source = col_data_type target" "col_nullable source \<noteq> col_nullable target"
      "col_default source = col_default target" "col_identity source = col_identity target"
    using that by (cases "col_default target") (auto simp: column_changes_def)
  have default_value: "column_changes R source target =
      [case col_default target of None \<Rightarrow> ''DROP DEFAULT'' | Some d \<Rightarrow> ''SET DEFAULT '' @ d]"
    if "col_data_type source = col_data_type target" "col_nullable source = col_nullable target"
      "col_default source \<noteq> col_default target" "col_identity source = col_identity target"
    using that by (cases "col_default target"; cases "col_default source") (simp_all add: column_changes_def)
  have identity: "column_changes R source target =
      [if col_identity target then ''ADD GENERATED BY DEFAULT AS IDENTITY'' else ''DROP IDENTITY'']"
    if "col_data_type source = col_data_type target" "col_nullable source = col_nullable target"
      "col_default source = col_default target" "col_identity source \<noteq> col_identity target"
    using that by (cases "col_default target") (auto simp: column_changes_def)
  show ?thesis
    using stmt data_type nullable default_value identity by (intro conjI impI) auto
qed

text \<open>The witness of C7: one pair of columns for each of the four attributes.\<close>

theorem mutate_column_stmt_single_change_witness:
  "mutate_column_stmt example_rendering (column ''n'' ''int'' True) (column ''n'' ''bigint'' True)
     = Inr (Some (''ALTER COLUMN '' @ [dquote] @ ''n'' @ [dquote] @ '' SET DATA TYPE bigint''))
   \<and> mutate_column_stmt example_rendering (column ''n'' ''int'' True) (column ''n'' ''int'' False)
     = Inr (Some (''ALTER COLUMN '' @ [dquote] @ ''n'' @ [dquote] @ '' SET NOT NULL''))
   \<and> mutate_column_stmt example_rendering
        ((column ''n'' ''int'' True) \<lparr> col_default := Some ''0'' \<rparr>) (column ''n'' ''int'' True)
     = Inr (Some (''ALTER COLUMN '' @ [dquote] @ ''n'' @ [dquote] @ '' DROP DEFAULT''))
   \<and> mutate_column_stmt example_rendering
        (column ''n'' ''int'' True) ((column ''n'' ''int'' True) \<lparr> col_identity := True \<rparr>)
     = Inr (Some (''ALTER COLUMN '' @ [dquote] @ ''n'' @ [dquote]
                  @ '' ADD GENERATED BY DEFAULT AS IDENTITY''))"
  using
    mutate_column_stmt_single_change
      [of "column ''n'' ''int'' True" "column ''n'' ''bigint'' True" example_rendering]
    mutate_column_stmt_single_change
      [of "column ''n'' ''int'' True" "column ''n'' ''int'' False" example_rendering]
    mutate_column_stmt_single_change
      [of "(column ''n'' ''int'' True) \<lparr> col_default := Some ''0'' \<rparr>" "column ''n'' ''int'' True"
        example_rendering]
    mutate_column_stmt_single_change
      [of "column ''n'' ''int'' True" "(column ''n'' ''int'' True) \<lparr> col_identity := True \<rparr>"
        example_rendering]
  by (simp add: column_def example_rendering_def quote_id_def)

text \<open>
  The Oracle override gives one \<open>MODIFY\<close> clause with one change in the same four cases,
  in its own words.
\<close>

lemma oracle_mutate_column_stmt_single_change:
  fixes source target :: "'ty Column"
  shows
  "(col_data_type source \<noteq> col_data_type target \<and> col_nullable source = col_nullable target
      \<and> col_default source = col_default target \<and> col_identity source = col_identity target
    \<longrightarrow> oracle_mutate_column_stmt R source target =
          Inr (Some (''MODIFY '' @ str_local R (col_name source) @ '' ''
                     @ str_data_type R (col_data_type target))))
   \<and> (col_data_type source = col_data_type target \<and> col_nullable source \<noteq> col_nullable target
      \<and> col_default source = col_default target \<and> col_identity source = col_identity target
    \<longrightarrow> oracle_mutate_column_stmt R source target =
          Inr (Some (''MODIFY '' @ str_local R (col_name source) @ '' ''
                     @ (if col_nullable target then ''NULL'' else ''NOT NULL''))))
   \<and> (col_data_type source = col_data_type target \<and> col_nullable source = col_nullable target
      \<and> col_default source \<noteq> col_default target \<and> col_identity source = col_identity target
    \<longrightarrow> oracle_mutate_column_stmt R source target =
          Inr (Some (''MODIFY '' @ str_local R (col_name source) @ '' ''
                     @ (if col_default target = None then ''DEFAULT NULL''
                        else ''DEFAULT '' @ default_expr R target))))
   \<and> (col_data_type source = col_data_type target \<and> col_nullable source = col_nullable target
      \<and> col_default source = col_default target \<and> col_identity source \<noteq> col_identity target
    \<longrightarrow> oracle_mutate_column_stmt R source target =
          Inr (Some (''MODIFY '' @ str_local R (col_name source) @ '' ''
                     @ (if col_identity target then ''GENERATED BY DEFAULT AS IDENTITY''
                        else ''DROP IDENTITY''))))"
  by (auto simp: oracle_mutate_column_stmt_def oracle_column_changes_def)


section \<open>Tables\<close>

text \<open>
  Claim C8. Let the two tables have the same name. When the loop over the target
  columns reaches a column for which \<open>create_stmt\<close> (the column is not in the source)
  or the column mutator (it is) raises \<open>ColumnFormationError\<close>, the columns before
  it having given their fragments, \<open>mutate_table_stmt\<close> raises
  \<open>TableFormationError\<close> with the name of the target table and that error as its
  cause. The same holds when \<open>drop_stmt\<close> raises for a source-only column, once the
  first loop has succeeded and the source-only columns before it have been dropped.
\<close>

theorem column_error_attributed_to_table:
  assumes "tbl_name source = tbl_name target"
  shows
  "(values_of (tbl_columns target) = earlier @ c # later
      \<and> list_all2 (target_column_fragment R mutate_column source) earlier fragments
      \<and> ((map_of (tbl_columns source) (local_id (col_name c)) = None
            \<and> column_create_stmt R c = Inl (ColumnFormationError m n))
          \<or> (\<exists>source_column.
                map_of (tbl_columns source) (local_id (col_name c)) = Some source_column
                \<and> mutate_column source_column c = Inl (ColumnFormationError m n)))
    \<longrightarrow> mutate_table_stmt R mutate_column source target =
          Inl (TableFormationError ''failed to create or update columns in table''
                 (tbl_name target) (ColumnFormationError m n)))
   \<and> (list_all2 (target_column_fragment R mutate_column source)
          (values_of (tbl_columns target)) fragments
      \<and> values_of (tbl_columns source) = earlier @ c # later
      \<and> map Inr dropped =
          map (column_drop_stmt R)
            (filter (\<lambda>x. local_id (col_name x) \<notin> set (keys (tbl_columns target))) earlier)
      \<and> local_id (col_name c) \<notin> set (keys (tbl_columns target))
      \<and> column_drop_stmt R c = Inl (ColumnFormationError m n)
    \<longrightarrow> mutate_table_stmt R mutate_column source target =
          Inl (TableFormationError ''failed to drop columns in table''
                 (tbl_name target) (ColumnFormationError m n)))"
proof (intro conjI impI)
  have same: "check_identity (str_qualified R) (tbl_name source) (tbl_name target) = Inr ()"
    using assms by (simp add: check_identity_def)
  {
    assume a: "values_of (tbl_columns target) = earlier @ c # later
      \<and> list_all2 (target_column_fragment R mutate_column source) earlier fragments
      \<and> ((map_of (tbl_columns source) (local_id (col_name c)) = None
            \<and> column_create_stmt R c = Inl (ColumnFormationError m n))
          \<or> (\<exists>source_column.
                map_of (tbl_columns source) (local_id (col_name c)) = Some source_column
                \<and> mutate_column source_column c = Inl (ColumnFormationError m n)))"
    then have "collect (create_or_update_column R mutate_column source) earlier
        = Inr (concat fragments)"
      by (auto simp: create_or_update_columns_Inr)
    moreover from a have "create_or_update_column R mutate_column source c
        = Inl (ColumnFormationError m n)"
      by (auto simp: create_or_update_column_def)
    ultimately have "collect (create_or_update_column R mutate_column source)
                 (values_of (tbl_columns target)) = Inl (ColumnFormationError m n)"
      using a by (simp add: collect_first_error)
    then show "mutate_table_stmt R mutate_column source target =
          Inl (TableFormationError ''failed to create or update columns in table''
                 (tbl_name target) (ColumnFormationError m n))"
      using same by (simp add: mutate_table_stmt_def table_changes_def)
  }
  {
    assume a: "list_all2 (target_column_fragment R mutate_column source)
          (values_of (tbl_columns target)) fragments
      \<and> values_of (tbl_columns source) = earlier @ c # later
      \<and> map Inr dropped =
          map (column_drop_stmt R)
            (filter (\<lambda>x. local_id (col_name x) \<notin> set (keys (tbl_columns target))) earlier)
      \<and> local_id (col_name c) \<notin> set (keys (tbl_columns target))
      \<and> column_drop_stmt R c = Inl (ColumnFormationError m n)"
    then have updated: "collect (create_or_update_column R mutate_column source)
        (values_of (tbl_columns target)) = Inr (concat fragments)"
      by (auto simp: create_or_update_columns_Inr)
    from a have "collect (drop_column R target) earlier = Inr dropped"
      by (simp add: drop_columns_Inr)
    moreover from a have "drop_column R target c = Inl (ColumnFormationError m n)"
      by (simp add: drop_column_def has_key_def)
    ultimately have "collect (drop_column R target) (values_of (tbl_columns source))
                 = Inl (ColumnFormationError m n)"
      using a by (simp add: collect_first_error)
    then show "mutate_table_stmt R mutate_column source target =
          Inl (TableFormationError ''failed to drop columns in table''
                 (tbl_name target) (ColumnFormationError m n))"
      using same updated by (simp add: mutate_table_stmt_def table_changes_def)
  }
qed

text \<open>
  The witness of C8: adding the column \<open>email\<close> with a create renderer that raises,
  retyping the column \<open>name\<close> with a column mutator that raises, and dropping
  \<open>email\<close> with a drop renderer that raises each fail with a
  \<open>TableFormationError\<close> for \<open>users\<close> whose cause is the column's error.
\<close>

theorem column_error_attributed_to_table_witness:
  "mutate_table_stmt failing_rendering (mutate_column_stmt failing_rendering)
       users_source users_target =
     Inl (TableFormationError ''failed to create or update columns in table''
            (QualifiedId None ''users'')
            (ColumnFormationError ''unsupported data type'' (LocalId ''email'')))
   \<and> mutate_table_stmt example_rendering strict_mutate_column users_source users_retyped =
     Inl (TableFormationError ''failed to create or update columns in table''
            (QualifiedId None ''users'')
            (ColumnFormationError ''cannot change data type'' (LocalId ''name'')))
   \<and> mutate_table_stmt failing_rendering (mutate_column_stmt failing_rendering)
       users_target users_source =
     Inl (TableFormationError ''failed to drop columns in table''
            (QualifiedId None ''users'')
            (ColumnFormationError ''column in use'' (LocalId ''email'')))"
proof -
  let ?F = failing_rendering
  let ?mc = "mutate_column_stmt failing_rendering"
  have same: "tbl_name users_source = tbl_name users_target"
    "tbl_name users_source = tbl_name users_retyped"
    "tbl_name users_target = tbl_name users_source"
    by (simp_all add: users_source_def users_target_def users_retyped_def table_def)
  have name: "tbl_name users_target = QualifiedId None ''users''"
    "tbl_name users_retyped = QualifiedId None ''users''"
    "tbl_name users_source = QualifiedId None ''users''"
    by (simp_all add: users_source_def users_target_def users_retyped_def table_def)
  have create:
    "values_of (tbl_columns users_target) =
       [column ''id'' ''int'' False, column ''name'' ''text'' False]
       @ column ''email'' ''text'' True # []
     \<and> list_all2 (target_column_fragment ?F ?mc users_source)
         [column ''id'' ''int'' False, column ''name'' ''text'' False]
         [[], [''ALTER COLUMN '' @ quote_id ''name'' @ '' SET NOT NULL'']]
     \<and> ((map_of (tbl_columns users_source) (local_id (col_name (column ''email'' ''text'' True)))
            = None
          \<and> column_create_stmt ?F (column ''email'' ''text'' True)
            = Inl (ColumnFormationError ''unsupported data type'' (LocalId ''email'')))
        \<or> (\<exists>source_column.
              map_of (tbl_columns users_source)
                (local_id (col_name (column ''email'' ''text'' True))) = Some source_column
              \<and> ?mc source_column (column ''email'' ''text'' True)
                = Inl (ColumnFormationError ''unsupported data type'' (LocalId ''email''))))"
    by (simp add: example_defs target_column_fragment_def mutate_column_stmt_def
        column_changes_def)
  have mutate:
    "values_of (tbl_columns users_retyped) =
       [column ''id'' ''int'' False] @ column ''name'' ''varchar'' True # []
     \<and> list_all2 (target_column_fragment example_rendering strict_mutate_column users_source)
         [column ''id'' ''int'' False] [[]]
     \<and> ((map_of (tbl_columns users_source)
             (local_id (col_name (column ''name'' ''varchar'' True))) = None
          \<and> column_create_stmt example_rendering (column ''name'' ''varchar'' True)
            = Inl (ColumnFormationError ''cannot change data type'' (LocalId ''name'')))
        \<or> (\<exists>source_column.
              map_of (tbl_columns users_source)
                (local_id (col_name (column ''name'' ''varchar'' True))) = Some source_column
              \<and> strict_mutate_column source_column (column ''name'' ''varchar'' True)
                = Inl (ColumnFormationError ''cannot change data type'' (LocalId ''name''))))"
    by (simp add: example_defs users_retyped_def target_column_fragment_def
        strict_mutate_column_def mutate_column_stmt_def column_changes_def)
  have drop:
    "list_all2 (target_column_fragment ?F ?mc users_target)
         (values_of (tbl_columns users_source))
         [[], [''ALTER COLUMN '' @ quote_id ''name'' @ '' DROP NOT NULL'']]
     \<and> values_of (tbl_columns users_target) =
       [column ''id'' ''int'' False, column ''name'' ''text'' False]
       @ column ''email'' ''text'' True # []
     \<and> map Inr [] =
         map (column_drop_stmt ?F)
           (filter (\<lambda>x. local_id (col_name x) \<notin> set (keys (tbl_columns users_source)))
              [column ''id'' ''int'' False, column ''name'' ''text'' False])
     \<and> local_id (col_name (column ''email'' ''text'' True))
         \<notin> set (keys (tbl_columns users_source))
     \<and> column_drop_stmt ?F (column ''email'' ''text'' True)
         = Inl (ColumnFormationError ''column in use'' (LocalId ''email''))"
    by (simp add: example_defs target_column_fragment_def mutate_column_stmt_def
        column_changes_def)
  show ?thesis
    using column_error_attributed_to_table [OF same(1), THEN conjunct1, rule_format, OF create]
      column_error_attributed_to_table [OF same(2), THEN conjunct1, rule_format, OF mutate]
      column_error_attributed_to_table [OF same(3), THEN conjunct2, rule_format, OF drop]
    by (simp only: name)
qed


text \<open>
  Claim C10. Let the two tables have the same name and let the column loops give the
  fragments \<open>concat fragments\<close> and \<open>dropped\<close>. Then \<open>mutate_table_stmt\<close> passes to
  \<open>alter_table_stmt\<close> those fragments followed by: one \<open>DROP CONSTRAINT\<close> for each
  source constraint with \<open>is_alter_table\<close> when only the source has constraints; one
  \<open>ADD CONSTRAINT\<close> for each such target constraint when only the target has
  constraints; nothing when both have constraints, whatever they are, and nothing when
  neither has. It returns \<open>None\<close> when the whole list is empty.
\<close>

theorem constraint_fragments:
  assumes "tbl_name source = tbl_name target"
    and "list_all2 (target_column_fragment R mutate_column source)
           (values_of (tbl_columns target)) fragments"
    and "map Inr dropped =
           map (column_drop_stmt R)
             (filter (\<lambda>c. local_id (col_name c) \<notin> set (keys (tbl_columns target)))
                (values_of (tbl_columns source)))"
  shows
  "(tbl_constraints source \<noteq> [] \<and> tbl_constraints target = [] \<longrightarrow>
      mutate_table_stmt R mutate_column source target =
        (let statements = concat fragments @ dropped
               @ map (\<lambda>c. ''DROP CONSTRAINT '' @ str_local R (con_name c))
                   (filter con_is_alter_table (tbl_constraints source))
         in if statements = [] then Inr None
            else case alter_table_stmt R source statements of
                   Inl e \<Rightarrow> Inl e | Inr statement \<Rightarrow> Inr (Some statement)))
   \<and> (tbl_constraints source = [] \<and> tbl_constraints target \<noteq> [] \<longrightarrow>
      mutate_table_stmt R mutate_column source target =
        (let statements = concat fragments @ dropped
               @ map (\<lambda>c. ''ADD CONSTRAINT '' @ con_spec c)
                   (filter con_is_alter_table (tbl_constraints target))
         in if statements = [] then Inr None
            else case alter_table_stmt R source statements of
                   Inl e \<Rightarrow> Inl e | Inr statement \<Rightarrow> Inr (Some statement)))
   \<and> ((tbl_constraints source \<noteq> [] \<and> tbl_constraints target \<noteq> [])
        \<or> (tbl_constraints source = [] \<and> tbl_constraints target = []) \<longrightarrow>
      mutate_table_stmt R mutate_column source target =
        (let statements = concat fragments @ dropped
         in if statements = [] then Inr None
            else case alter_table_stmt R source statements of
                   Inl e \<Rightarrow> Inl e | Inr statement \<Rightarrow> Inr (Some statement)))"
proof -
  have changes: "table_changes R mutate_column source target =
     Inr (concat fragments @ dropped @ constraint_changes R source target)"
    using assms by (rule table_changes_columns)
  show ?thesis
    unfolding mutate_table_stmt_def changes
    by (auto simp: constraint_changes_def Let_def)
qed

text \<open>
  The witness of C10: a foreign key and a check constraint dropped, then added, and a
  foreign key replaced by another one, for which the method returns nothing.
\<close>

theorem constraint_fragments_witness:
  "mutate_table_stmt example_rendering (mutate_column_stmt example_rendering)
       (posts [fk_author, ck_title]) (posts [])
     = Inr (Some (''ALTER TABLE '' @ quote_id ''posts'' @ ''\<newline>''
                  @ ''DROP CONSTRAINT '' @ quote_id ''fk_author'' @ '';''))
   \<and> mutate_table_stmt example_rendering (mutate_column_stmt example_rendering)
       (posts []) (posts [fk_author, ck_title])
     = Inr (Some (''ALTER TABLE '' @ quote_id ''posts'' @ ''\<newline>''
                  @ ''ADD CONSTRAINT fk_author FOREIGN KEY (author) REFERENCES users (id)''
                  @ '';''))
   \<and> mutate_table_stmt example_rendering (mutate_column_stmt example_rendering)
       (posts [fk_author]) (posts [fk_editor, ck_title])
     = Inr None"
proof -
  let ?R = example_rendering
  let ?mc = "mutate_column_stmt example_rendering"
  have name: "tbl_name (posts cs) = tbl_name (posts ds)" for cs ds
    by (simp add: posts_def table_def)
  have columns: "list_all2 (target_column_fragment ?R ?mc (posts cs))
      (values_of (tbl_columns (posts ds))) [[]]" for cs ds
    by (simp add: target_column_fragment_def posts_def table_def column_def values_of_def
        mutate_column_stmt_def)
  have dropped: "map Inr [] =
      map (column_drop_stmt ?R)
        (filter (\<lambda>c. local_id (col_name c) \<notin> set (keys (tbl_columns (posts ds))))
           (values_of (tbl_columns (posts cs))))" for cs ds
    by (simp add: posts_def table_def column_def values_of_def keys_def)
  have constraints: "tbl_constraints (posts cs) = cs" for cs
    by (simp add: posts_def table_def)
  have facts: "con_is_alter_table fk_author" "\<not> con_is_alter_table ck_title"
    "con_name fk_author = LocalId ''fk_author''"
    "con_spec fk_author = ''fk_author FOREIGN KEY (author) REFERENCES users (id)''"
    "str_local ?R (LocalId ''fk_author'') = quote_id ''fk_author''"
    "alter_table_stmt ?R (posts cs) statements =
       Inr (''ALTER TABLE '' @ quote_id ''posts'' @ ''\<newline>''
            @ join '',\<newline>'' statements @ '';'')" for cs statements
    by (simp_all add: fk_author_def ck_title_def example_rendering_def posts_def table_def
        example_str_qualified_def)
  show ?thesis
    using constraint_fragments [OF name columns dropped, of "[fk_author, ck_title]" "[]"]
      constraint_fragments [OF name columns dropped, of "[]" "[fk_author, ck_title]"]
      constraint_fragments [OF name columns dropped, of "[fk_author]" "[fk_editor, ck_title]"]
    by (simp add: constraints facts)
qed


section \<open>The identity law\<close>

lemma collect_all_empty:
  "(\<And>x. x \<in> set xs \<Longrightarrow> f x = Inr []) \<Longrightarrow> collect f xs = Inr []"
  by (induction xs) simp_all

lemma getitem_key:
  assumes "k \<in> set (keys m)"
  obtains v where "getitem m k = Inr v" and "(k, v) \<in> set m"
proof -
  from assms obtain v where "map_of m k = Some v"
    by (auto simp: keys_def dest: weak_map_of_SomeI)
  then show ?thesis
    using that by (simp add: getitem_def map_of_SomeD)
qed

lemma create_diff_same: "create_diff f m m = Inr []"
  by (simp add: create_diff_def has_key_def)

lemma drop_diff_same: "drop_diff f m m = Inr []"
  by (simp add: drop_diff_def has_key_def)

lemma optional_diff_same: "optional_diff f m m = Inr []"
  unfolding optional_diff_def by (rule collect_all_empty) (simp add: has_key_def)

lemma mutate_diff_same:
  assumes "\<And>k v. (k, v) \<in> set m \<Longrightarrow> f v v = Inr None"
  shows "mutate_diff f m m = Inr []"
  unfolding mutate_diff_def
proof (rule collect_all_empty)
  fix k assume k: "k \<in> set (keys m)"
  then obtain v where "getitem m k = Inr v" "(k, v) \<in> set m"
    by (rule getitem_key)
  with k assms show "(if has_key m k
          then case getitem m k of
                 Inl e \<Rightarrow> Inl e
               | Inr s \<Rightarrow>
                   (case getitem m k of
                      Inl e \<Rightarrow> Inl e
                    | Inr t \<Rightarrow>
                        (case f s t of
                           Inl e \<Rightarrow> Inl e
                         | Inr statement \<Rightarrow> Inr (append_if statement)))
          else Inr []) = Inr []"
    by (simp add: has_key_def)
qed

lemma mutate_column_stmt_same: "mutate_column_stmt R c c = Inr None"
  by (simp add: mutate_column_stmt_def)

lemma oracle_mutate_column_stmt_same: "oracle_mutate_column_stmt R c c = Inr None"
  by (simp add: oracle_mutate_column_stmt_def oracle_column_changes_def)

lemma mutate_enum_stmt_same: "mutate_enum_stmt R e e = Inr None"
  by (simp add: mutate_enum_stmt_def check_identity_def)

lemma mutate_struct_stmt_same: "mutate_struct_stmt R s s = Inr None"
  by (simp add: mutate_struct_stmt_def check_identity_def)

lemma keyed_by_name_lookup:
  assumes "keyed_by_name columns" and "c \<in> set (values_of columns)"
  shows "map_of columns (local_id (col_name c)) = Some c"
    and "has_key columns (local_id (col_name c))"
proof -
  from assms(2) obtain k where k: "(k, c) \<in> set columns"
    by (auto simp: values_of_def)
  with assms(1) have "k = local_id (col_name c)"
    by (auto simp: keyed_by_name_def list_all_iff)
  with k assms(1) show "map_of columns (local_id (col_name c)) = Some c"
    by (simp add: keyed_by_name_def keys_def)
  from k \<open>k = local_id (col_name c)\<close> show "has_key columns (local_id (col_name c))"
    by (force simp: has_key_def keys_def)
qed

lemma mutate_table_stmt_same:
  assumes "wf_table t" and "\<And>c. mutate_column c c = Inr None"
  shows "mutate_table_stmt R mutate_column t t = Inr None"
proof -
  have keyed: "keyed_by_name (tbl_columns t)"
    using assms(1) by (simp add: wf_table_def)
  have updated: "collect (create_or_update_column R mutate_column t) (values_of (tbl_columns t)) = Inr []"
    by (rule collect_all_empty)
      (simp add: create_or_update_column_def keyed_by_name_lookup [OF keyed] assms(2))
  have dropped: "collect (drop_column R t) (values_of (tbl_columns t)) = Inr []"
    by (rule collect_all_empty) (simp add: drop_column_def keyed_by_name_lookup [OF keyed])
  have "constraint_changes R t t = []"
    by (simp add: constraint_changes_def)
  with updated dropped have "table_changes R mutate_column t t = Inr []"
    by (simp add: table_changes_def check_identity_def)
  then show ?thesis
    by (simp add: mutate_table_stmt_def)
qed

lemma mutate_namespace_stmt_same:
  assumes "wf_namespace n" and "\<And>c. mutate_column c c = Inr None"
  shows "mutate_namespace_stmt R mutate_column n n = Inr None"
proof -
  have tables: "mutate_diff (mutate_table_stmt R mutate_column) (ns_tables n) (ns_tables n) = Inr []"
  proof (rule mutate_diff_same)
    fix k t assume "(k, t) \<in> set (ns_tables n)"
    with assms(1) have "wf_table t"
      by (auto simp: wf_namespace_def list_all_iff)
    then show "mutate_table_stmt R mutate_column t t = Inr None"
      using assms(2) by (rule mutate_table_stmt_same)
  qed
  have "namespace_changes R mutate_column n n = Inr []"
    by (simp add: namespace_changes_def check_identity_def create_diff_same drop_diff_same
        optional_diff_same tables mutate_diff_same mutate_enum_stmt_same mutate_struct_stmt_same)
  then show ?thesis
    by (simp add: mutate_namespace_stmt_def)
qed

lemma mutate_catalog_stmt_same:
  assumes "wf_catalog c" and "\<And>x. mutate_column x x = Inr None"
  shows "mutate_catalog_stmt R mutate_column c c = Inr None"
proof -
  have namespaces: "mutate_diff (mutate_namespace_stmt R mutate_column)
      (cat_namespaces c) (cat_namespaces c) = Inr []"
  proof (rule mutate_diff_same)
    fix k n assume "(k, n) \<in> set (cat_namespaces c)"
    with assms(1) have "wf_namespace n"
      by (auto simp: wf_catalog_def list_all_iff)
    then show "mutate_namespace_stmt R mutate_column n n = Inr None"
      using assms(2) by (rule mutate_namespace_stmt_same)
  qed
  have "catalog_changes R mutate_column c c = Inr []"
    by (simp add: catalog_changes_def create_diff_same drop_diff_same optional_diff_same
        namespaces)
  then show ?thesis
    by (simp add: mutate_catalog_stmt_def)
qed

text \<open>
  Claim C2. Diffing a tree against itself gives no statement at any level: for a column,
  an enumeration, a structure, a table, a namespace and a catalog, the mutator returns
  \<open>None\<close> (not an empty string, and no error). The trees are those of the data
  model: the columns of every table are keyed by their names.
\<close>

theorem mutate_identity:
  assumes "wf_table t" and "wf_namespace n" and "wf_catalog c"
  shows "mutate_column_stmt R col col = Inr None
    \<and> mutate_enum_stmt R e e = Inr None
    \<and> mutate_struct_stmt R s s = Inr None
    \<and> mutate_table_stmt R (mutate_column_stmt R) t t = Inr None
    \<and> mutate_namespace_stmt R (mutate_column_stmt R) n n = Inr None
    \<and> mutate_catalog_stmt R (mutate_column_stmt R) c c = Inr None"
proof -
  have column: "mutate_column_stmt R x x = Inr None" for x
    by (rule mutate_column_stmt_same)
  from assms(1) column have "mutate_table_stmt R (mutate_column_stmt R) t t = Inr None"
    by (rule mutate_table_stmt_same)
  moreover from assms(2) column
  have "mutate_namespace_stmt R (mutate_column_stmt R) n n = Inr None"
    by (rule mutate_namespace_stmt_same)
  moreover from assms(3) column
  have "mutate_catalog_stmt R (mutate_column_stmt R) c c = Inr None"
    by (rule mutate_catalog_stmt_same)
  ultimately show ?thesis
    by (simp add: column mutate_enum_stmt_same mutate_struct_stmt_same)
qed

text \<open>The witness of C2: the example catalog, and a tree of each kind below it.\<close>

lemma wf_examples:
  "wf_table users_target" "wf_namespace shop_target" "wf_catalog catalog_target"
  by (simp_all add: wf_catalog_def wf_namespace_def wf_table_def keyed_by_name_def
      catalog_target_def shop_target_def archive_def posts_def example_defs)

theorem mutate_identity_witness:
  "wf_table users_target \<and> wf_namespace shop_target \<and> wf_catalog catalog_target
   \<and> mutate_column_stmt example_rendering described described = Inr None
   \<and> mutate_enum_stmt example_rendering mood_abc mood_abc = Inr None
   \<and> mutate_struct_stmt example_rendering point3 point3 = Inr None
   \<and> mutate_table_stmt example_rendering (mutate_column_stmt example_rendering)
        users_target users_target = Inr None
   \<and> mutate_namespace_stmt example_rendering (mutate_column_stmt example_rendering)
        shop_target shop_target = Inr None
   \<and> mutate_catalog_stmt example_rendering (mutate_column_stmt example_rendering)
        catalog_target catalog_target = Inr None"
  using wf_examples
    mutate_identity [OF wf_examples, of example_rendering described mood_abc point3]
  by simp


section \<open>The order of the statements\<close>

text \<open>
  What the functions \<open>create_diff\<close>, \<open>drop_diff\<close>, \<open>mutate_diff\<close> and the loops over
  optional statements return, in the words of the specification: one statement for
  every child that is in one mapping only, or for every pair of children of the same
  name, in the order of the mapping.
\<close>

lemma getitem_distinct:
  "distinct (keys m) \<Longrightarrow> (k, v) \<in> set m \<Longrightarrow> getitem m k = Inr v"
  by (simp add: getitem_def keys_def)

lemma collect_optional:
  "collect (\<lambda>x. case g x of Inl e \<Rightarrow> Inl e | Inr st \<Rightarrow> Inr (append_if st)) xs
     = Inr (concat (map append_if results))"
  if "map Inr results = map g xs"
  using that
proof (induction xs arbitrary: results)
  case Nil
  then show ?case by simp
next
  case (Cons x xs)
  then obtain r rs where "results = r # rs" "g x = Inr r" "map Inr rs = map g xs"
    by (cases results) auto
  with Cons.IH [of rs] show ?case by simp
qed

lemma collect_single:
  "collect (\<lambda>x. case g x of Inl e \<Rightarrow> Inl e | Inr s \<Rightarrow> Inr [s]) xs = Inr statements"
  if "map Inr statements = map g xs"
  using that by (simp add: collect_singletons)

lemma map_getitem_only_in:
  assumes "distinct (keys m)"
  shows "map (\<lambda>k. case getitem m k of Inl e \<Rightarrow> Inl e | Inr obj \<Rightarrow> f obj)
           (filter (\<lambda>k. \<not> has_key other k) (keys m))
         = map f (only_in m other)"
proof -
  have "map (\<lambda>k. case getitem m k of Inl e \<Rightarrow> Inl e | Inr obj \<Rightarrow> f obj)
           (filter (\<lambda>k. \<not> has_key other k) (map fst xs))
         = map f (map snd (filter (\<lambda>(k, v). k \<notin> set (keys other)) xs))"
    if "set xs \<subseteq> set m" for xs
    using that
  proof (induction xs)
    case Nil
    then show ?case by simp
  next
    case (Cons x xs)
    obtain k v where x: "x = (k, v)" by (cases x)
    with Cons.prems have "getitem m k = Inr v"
      using assms by (simp add: getitem_distinct)
    with Cons x show ?case by (simp add: has_key_def)
  qed
  then show ?thesis by (simp add: keys_def only_in_def)
qed

lemma map_getitem_in_both:
  assumes "distinct (keys source)"
  shows "map (\<lambda>k. case getitem source k of
                    Inl e \<Rightarrow> Inl e
                  | Inr s \<Rightarrow> (case getitem target k of Inl e \<Rightarrow> Inl e | Inr t \<Rightarrow> f s t))
           (filter (has_key target) (keys source))
         = map (\<lambda>(s, t). f s t) (in_both source target)"
proof -
  have "map (\<lambda>k. case getitem source k of
                    Inl e \<Rightarrow> Inl e
                  | Inr s \<Rightarrow> (case getitem target k of Inl e \<Rightarrow> Inl e | Inr t \<Rightarrow> f s t))
           (filter (has_key target) (map fst xs))
         = map (\<lambda>(s, t). f s t)
             (concat (map (\<lambda>(k, s). case map_of target k of None \<Rightarrow> [] | Some t \<Rightarrow> [(s, t)]) xs))"
    if "set xs \<subseteq> set source" for xs
    using that
  proof (induction xs)
    case Nil
    then show ?case by simp
  next
    case (Cons x xs)
    obtain k s where x: "x = (k, s)" by (cases x)
    with Cons.prems have s: "getitem source k = Inr s"
      using assms by (simp add: getitem_distinct)
    show ?case
    proof (cases "map_of target k")
      case None
      then have "\<not> has_key target k"
        by (simp add: has_key_def keys_def map_of_eq_None_iff)
      with Cons x None show ?thesis by simp
    next
      case (Some t)
      then have "has_key target k"
        by (auto simp: has_key_def keys_def dest: map_of_SomeD intro: rev_image_eqI)
      with Cons x Some s show ?thesis by (simp add: getitem_def)
    qed
  qed
  then show ?thesis by (simp add: keys_def in_both_def)
qed

lemma create_diff_only_in:
  assumes "distinct (keys target)" and "map Inr statements = map f (only_in target source)"
  shows "create_diff f source target = Inr statements"
proof -
  have "create_diff f source target =
      collect (\<lambda>k. case (case getitem target k of Inl e \<Rightarrow> Inl e | Inr obj \<Rightarrow> f obj) of
                      Inl e \<Rightarrow> Inl e | Inr s \<Rightarrow> Inr [s])
        (filter (\<lambda>k. \<not> has_key source k) (keys target))"
    unfolding create_diff_def
    by (rule arg_cong [where f = "\<lambda>g. collect g _"]) (auto split: sum.splits)
  then show ?thesis
    using assms by (simp add: collect_single map_getitem_only_in)
qed

lemma drop_diff_only_in:
  assumes "distinct (keys source)" and "map Inr statements = map f (only_in source target)"
  shows "drop_diff f source target = Inr statements"
proof -
  have "drop_diff f source target =
      collect (\<lambda>k. case (case getitem source k of Inl e \<Rightarrow> Inl e | Inr obj \<Rightarrow> f obj) of
                      Inl e \<Rightarrow> Inl e | Inr s \<Rightarrow> Inr [s])
        (filter (\<lambda>k. \<not> has_key target k) (keys source))"
    unfolding drop_diff_def
    by (rule arg_cong [where f = "\<lambda>g. collect g _"]) (auto split: sum.splits)
  then show ?thesis
    using assms by (simp add: collect_single map_getitem_only_in)
qed

lemma optional_diff_only_in:
  assumes "distinct (keys present)" and "map Inr results = map f (only_in present other)"
  shows "optional_diff f present other = Inr (concat (map append_if results))"
proof -
  have "optional_diff f present other =
      collect (\<lambda>k. case (case getitem present k of Inl e \<Rightarrow> Inl e | Inr obj \<Rightarrow> f obj) of
                      Inl e \<Rightarrow> Inl e | Inr st \<Rightarrow> Inr (append_if st))
        (filter (\<lambda>k. \<not> has_key other k) (keys present))"
    unfolding optional_diff_def collect_filter [symmetric]
    by (rule arg_cong [where f = "\<lambda>g. collect g _"]) (auto split: sum.splits)
  then show ?thesis
    using assms by (simp add: collect_optional map_getitem_only_in)
qed

lemma mutate_diff_in_both:
  assumes "distinct (keys source)"
    and "map Inr results = map (\<lambda>(s, t). f s t) (in_both source target)"
  shows "mutate_diff f source target = Inr (concat (map append_if results))"
proof -
  have "mutate_diff f source target =
      collect (\<lambda>k. case (case getitem source k of
                            Inl e \<Rightarrow> Inl e
                          | Inr s \<Rightarrow>
                              (case getitem target k of Inl e \<Rightarrow> Inl e | Inr t \<Rightarrow> f s t)) of
                      Inl e \<Rightarrow> Inl e | Inr st \<Rightarrow> Inr (append_if st))
        (filter (has_key target) (keys source))"
    unfolding mutate_diff_def collect_filter [symmetric]
    by (rule arg_cong [where f = "\<lambda>g. collect g _"]) (auto split: sum.splits)
  then show ?thesis
    using assms by (simp add: collect_optional map_getitem_in_both)
qed

lemma mutate_namespace_stmt_pieces:
  assumes "ns_name source = ns_name target"
    and "distinct (keys (ns_enums source))" "distinct (keys (ns_enums target))"
    and "distinct (keys (ns_structs source))" "distinct (keys (ns_structs target))"
    and "distinct (keys (ns_tables source))" "distinct (keys (ns_tables target))"
    and "map Inr create_enums =
           map (enum_create_stmt R) (only_in (ns_enums target) (ns_enums source))"
    and "map Inr create_structs =
           map (struct_create_stmt R) (only_in (ns_structs target) (ns_structs source))"
    and "map Inr create_tables =
           map (table_create_stmt R) (only_in (ns_tables target) (ns_tables source))"
    and "map Inr add_constraints =
           map (table_add_constraints_stmt R) (only_in (ns_tables target) (ns_tables source))"
    and "map Inr mutate_enums =
           map (\<lambda>(s, t). mutate_enum_stmt R s t) (in_both (ns_enums source) (ns_enums target))"
    and "map Inr mutate_structs =
           map (\<lambda>(s, t). mutate_struct_stmt R s t)
             (in_both (ns_structs source) (ns_structs target))"
    and "map Inr mutate_tables =
           map (\<lambda>(s, t). mutate_table_stmt R mutate_column s t)
             (in_both (ns_tables source) (ns_tables target))"
    and "map Inr drop_tables =
           map (table_drop_stmt R) (only_in (ns_tables source) (ns_tables target))"
    and "map Inr drop_structs =
           map (struct_drop_stmt R) (only_in (ns_structs source) (ns_structs target))"
    and "map Inr drop_enums =
           map (enum_drop_stmt R) (only_in (ns_enums source) (ns_enums target))"
  shows "mutate_namespace_stmt R mutate_column source target =
     Inr (let statements =
                create_enums @ create_structs @ create_tables
                @ concat (map append_if add_constraints)
                @ concat (map append_if mutate_enums)
                @ concat (map append_if mutate_structs)
                @ concat (map append_if mutate_tables)
                @ drop_tables @ drop_structs @ drop_enums
          in if statements = [] then None else Some (join ''\<newline>'' statements))"
proof -
  note pieces =
    create_diff_only_in [OF assms(3) assms(8)]
    create_diff_only_in [OF assms(5) assms(9)]
    create_diff_only_in [OF assms(7) assms(10)]
    optional_diff_only_in [OF assms(7) assms(11)]
    mutate_diff_in_both [OF assms(2) assms(12)]
    mutate_diff_in_both [OF assms(4) assms(13)]
    mutate_diff_in_both [OF assms(6) assms(14)]
    drop_diff_only_in [OF assms(6) assms(15)]
    drop_diff_only_in [OF assms(4) assms(16)]
    drop_diff_only_in [OF assms(2) assms(17)]
  have "namespace_changes R mutate_column source target =
     Inr (create_enums @ create_structs @ create_tables
          @ concat (map append_if add_constraints)
          @ concat (map append_if mutate_enums)
          @ concat (map append_if mutate_structs)
          @ concat (map append_if mutate_tables)
          @ drop_tables @ drop_structs @ drop_enums)"
    using assms(1) by (simp add: namespace_changes_def check_identity_def pieces)
  then show ?thesis
    by (simp add: mutate_namespace_stmt_def Let_def)
qed

lemma mutate_catalog_stmt_pieces:
  assumes "distinct (keys (cat_namespaces source))" "distinct (keys (cat_namespaces target))"
    and "map Inr creates =
           map (namespace_create_stmt R)
             (only_in (cat_namespaces target) (cat_namespaces source))"
    and "map Inr add_constraints =
           map (namespace_add_constraints_stmt R)
             (only_in (cat_namespaces target) (cat_namespaces source))"
    and "map Inr mutations =
           map (\<lambda>(s, t). mutate_namespace_stmt R mutate_column s t)
             (in_both (cat_namespaces source) (cat_namespaces target))"
    and "map Inr drop_constraints =
           map (namespace_drop_constraints_stmt R)
             (only_in (cat_namespaces source) (cat_namespaces target))"
    and "map Inr drops =
           map (namespace_drop_stmt R)
             (only_in (cat_namespaces source) (cat_namespaces target))"
  shows "mutate_catalog_stmt R mutate_column source target =
     Inr (let statements =
                creates @ concat (map append_if add_constraints)
                @ concat (map append_if mutations)
                @ concat (map append_if drop_constraints) @ drops
          in if statements = [] then None else Some (join ''\<newline>'' statements))"
proof -
  note pieces =
    create_diff_only_in [OF assms(2) assms(3)]
    optional_diff_only_in [OF assms(2) assms(4)]
    mutate_diff_in_both [OF assms(1) assms(5)]
    optional_diff_only_in [OF assms(1) assms(6)]
    drop_diff_only_in [OF assms(1) assms(7)]
  have "catalog_changes R mutate_column source target =
     Inr (creates @ concat (map append_if add_constraints)
          @ concat (map append_if mutations)
          @ concat (map append_if drop_constraints) @ drops)"
    by (simp add: catalog_changes_def pieces)
  then show ?thesis
    by (simp add: mutate_catalog_stmt_def Let_def)
qed

lemma mutate_table_stmt_pieces:
  assumes "tbl_name source = tbl_name target"
    and "list_all2 (target_column_fragment R mutate_column source)
           (values_of (tbl_columns target)) fragments"
    and "map Inr dropped =
           map (column_drop_stmt R)
             (filter (\<lambda>c. local_id (col_name c) \<notin> set (keys (tbl_columns target)))
                (values_of (tbl_columns source)))"
  shows "mutate_table_stmt R mutate_column source target =
     (let statements = concat fragments @ dropped @ constraint_changes R source target
      in if statements = [] then Inr None
         else case alter_table_stmt R source statements of
                Inl e \<Rightarrow> Inl e | Inr statement \<Rightarrow> Inr (Some statement))"
  unfolding mutate_table_stmt_def table_changes_columns [OF assms]
  by (simp add: Let_def)

text \<open>
  Claim C3, as amended. Where the statements of the children can be rendered,
  \<open>mutate_namespace_stmt\<close> returns, joined by newlines and in this order: the creates
  of the target-only enumerations, structures and tables; the add-constraints
  statements of the target-only tables; the mutations of the enumerations, structures
  and tables in both trees; the drops of the source-only tables, structures and
  enumerations (and \<open>None\<close> when there is none of them). \<open>mutate_catalog_stmt\<close> returns
  the creates of the target-only namespaces, their add-constraints statements, the
  mutations of the namespaces in both trees, the drop-constraints statements of the
  source-only namespaces and their drops. \<open>mutate_table_stmt\<close> passes to
  \<open>alter_table_stmt\<close> the fragments of the target columns first, in the order of the
  target columns, each a create fragment (the column is not in the source) or an alter
  fragment (it is); then the drop fragments of the source-only columns; then the
  constraint fragments.
\<close>

theorem statement_order:
  "(ns_name ns_source = ns_name ns_target
      \<and> distinct (keys (ns_enums ns_source)) \<and> distinct (keys (ns_enums ns_target))
      \<and> distinct (keys (ns_structs ns_source)) \<and> distinct (keys (ns_structs ns_target))
      \<and> distinct (keys (ns_tables ns_source)) \<and> distinct (keys (ns_tables ns_target))
      \<and> map Inr create_enums =
            map (enum_create_stmt R) (only_in (ns_enums ns_target) (ns_enums ns_source))
      \<and> map Inr create_structs =
            map (struct_create_stmt R) (only_in (ns_structs ns_target) (ns_structs ns_source))
      \<and> map Inr create_tables =
            map (table_create_stmt R) (only_in (ns_tables ns_target) (ns_tables ns_source))
      \<and> map Inr add_constraints =
            map (table_add_constraints_stmt R)
              (only_in (ns_tables ns_target) (ns_tables ns_source))
      \<and> map Inr mutate_enums =
            map (\<lambda>(s, t). mutate_enum_stmt R s t)
              (in_both (ns_enums ns_source) (ns_enums ns_target))
      \<and> map Inr mutate_structs =
            map (\<lambda>(s, t). mutate_struct_stmt R s t)
              (in_both (ns_structs ns_source) (ns_structs ns_target))
      \<and> map Inr mutate_tables =
            map (\<lambda>(s, t). mutate_table_stmt R mutate_column s t)
              (in_both (ns_tables ns_source) (ns_tables ns_target))
      \<and> map Inr drop_tables =
            map (table_drop_stmt R) (only_in (ns_tables ns_source) (ns_tables ns_target))
      \<and> map Inr drop_structs =
            map (struct_drop_stmt R) (only_in (ns_structs ns_source) (ns_structs ns_target))
      \<and> map Inr drop_enums =
            map (enum_drop_stmt R) (only_in (ns_enums ns_source) (ns_enums ns_target))
    \<longrightarrow> mutate_namespace_stmt R mutate_column ns_source ns_target =
          Inr (let statements =
                     create_enums @ create_structs @ create_tables
                     @ concat (map append_if add_constraints)
                     @ concat (map append_if mutate_enums)
                     @ concat (map append_if mutate_structs)
                     @ concat (map append_if mutate_tables)
                     @ drop_tables @ drop_structs @ drop_enums
               in if statements = [] then None else Some (join ''\<newline>'' statements)))
   \<and> (distinct (keys (cat_namespaces cat_source))
      \<and> distinct (keys (cat_namespaces cat_target))
      \<and> map Inr create_namespaces =
            map (namespace_create_stmt R)
              (only_in (cat_namespaces cat_target) (cat_namespaces cat_source))
      \<and> map Inr add_namespace_constraints =
            map (namespace_add_constraints_stmt R)
              (only_in (cat_namespaces cat_target) (cat_namespaces cat_source))
      \<and> map Inr mutate_namespaces =
            map (\<lambda>(s, t). mutate_namespace_stmt R mutate_column s t)
              (in_both (cat_namespaces cat_source) (cat_namespaces cat_target))
      \<and> map Inr drop_namespace_constraints =
            map (namespace_drop_constraints_stmt R)
              (only_in (cat_namespaces cat_source) (cat_namespaces cat_target))
      \<and> map Inr drop_namespaces =
            map (namespace_drop_stmt R)
              (only_in (cat_namespaces cat_source) (cat_namespaces cat_target))
    \<longrightarrow> mutate_catalog_stmt R mutate_column cat_source cat_target =
          Inr (let statements =
                     create_namespaces
                     @ concat (map append_if add_namespace_constraints)
                     @ concat (map append_if mutate_namespaces)
                     @ concat (map append_if drop_namespace_constraints)
                     @ drop_namespaces
               in if statements = [] then None else Some (join ''\<newline>'' statements)))
   \<and> (tbl_name tbl_source = tbl_name tbl_target
      \<and> list_all2 (target_column_fragment R mutate_column tbl_source)
            (values_of (tbl_columns tbl_target)) column_fragments
      \<and> map Inr drop_columns =
            map (column_drop_stmt R)
              (filter (\<lambda>c. local_id (col_name c) \<notin> set (keys (tbl_columns tbl_target)))
                 (values_of (tbl_columns tbl_source)))
      \<and> constraint_fragments =
            (if tbl_constraints tbl_source \<noteq> [] \<and> tbl_constraints tbl_target = []
             then map (\<lambda>c. ''DROP CONSTRAINT '' @ str_local R (con_name c))
                    (filter con_is_alter_table (tbl_constraints tbl_source))
             else if tbl_constraints tbl_source = [] \<and> tbl_constraints tbl_target \<noteq> []
             then map (\<lambda>c. ''ADD CONSTRAINT '' @ con_spec c)
                    (filter con_is_alter_table (tbl_constraints tbl_target))
             else [])
    \<longrightarrow> mutate_table_stmt R mutate_column tbl_source tbl_target =
          (let statements = concat column_fragments @ drop_columns @ constraint_fragments
           in if statements = [] then Inr None
              else case alter_table_stmt R tbl_source statements of
                     Inl e \<Rightarrow> Inl e | Inr statement \<Rightarrow> Inr (Some statement)))"
proof (intro conjI impI; elim conjE)
  assume "ns_name ns_source = ns_name ns_target"
    and "distinct (keys (ns_enums ns_source))" "distinct (keys (ns_enums ns_target))"
    and "distinct (keys (ns_structs ns_source))" "distinct (keys (ns_structs ns_target))"
    and "distinct (keys (ns_tables ns_source))" "distinct (keys (ns_tables ns_target))"
    and "map Inr create_enums =
           map (enum_create_stmt R) (only_in (ns_enums ns_target) (ns_enums ns_source))"
    and "map Inr create_structs =
           map (struct_create_stmt R) (only_in (ns_structs ns_target) (ns_structs ns_source))"
    and "map Inr create_tables =
           map (table_create_stmt R) (only_in (ns_tables ns_target) (ns_tables ns_source))"
    and "map Inr add_constraints =
           map (table_add_constraints_stmt R)
             (only_in (ns_tables ns_target) (ns_tables ns_source))"
    and "map Inr mutate_enums =
           map (\<lambda>(s, t). mutate_enum_stmt R s t)
             (in_both (ns_enums ns_source) (ns_enums ns_target))"
    and "map Inr mutate_structs =
           map (\<lambda>(s, t). mutate_struct_stmt R s t)
             (in_both (ns_structs ns_source) (ns_structs ns_target))"
    and "map Inr mutate_tables =
           map (\<lambda>(s, t). mutate_table_stmt R mutate_column s t)
             (in_both (ns_tables ns_source) (ns_tables ns_target))"
    and "map Inr drop_tables =
           map (table_drop_stmt R) (only_in (ns_tables ns_source) (ns_tables ns_target))"
    and "map Inr drop_structs =
           map (struct_drop_stmt R) (only_in (ns_structs ns_source) (ns_structs ns_target))"
    and "map Inr drop_enums =
           map (enum_drop_stmt R) (only_in (ns_enums ns_source) (ns_enums ns_target))"
  then show "mutate_namespace_stmt R mutate_column ns_source ns_target =
          Inr (let statements =
                     create_enums @ create_structs @ create_tables
                     @ concat (map append_if add_constraints)
                     @ concat (map append_if mutate_enums)
                     @ concat (map append_if mutate_structs)
                     @ concat (map append_if mutate_tables)
                     @ drop_tables @ drop_structs @ drop_enums
               in if statements = [] then None else Some (join ''\<newline>'' statements))"
    by (rule mutate_namespace_stmt_pieces)
next
  assume "distinct (keys (cat_namespaces cat_source))"
    and "distinct (keys (cat_namespaces cat_target))"
    and "map Inr create_namespaces =
           map (namespace_create_stmt R)
             (only_in (cat_namespaces cat_target) (cat_namespaces cat_source))"
    and "map Inr add_namespace_constraints =
           map (namespace_add_constraints_stmt R)
             (only_in (cat_namespaces cat_target) (cat_namespaces cat_source))"
    and "map Inr mutate_namespaces =
           map (\<lambda>(s, t). mutate_namespace_stmt R mutate_column s t)
             (in_both (cat_namespaces cat_source) (cat_namespaces cat_target))"
    and "map Inr drop_namespace_constraints =
           map (namespace_drop_constraints_stmt R)
             (only_in (cat_namespaces cat_source) (cat_namespaces cat_target))"
    and "map Inr drop_namespaces =
           map (namespace_drop_stmt R)
             (only_in (cat_namespaces cat_source) (cat_namespaces cat_target))"
  then show "mutate_catalog_stmt R mutate_column cat_source cat_target =
          Inr (let statements =
                     create_namespaces
                     @ concat (map append_if add_namespace_constraints)
                     @ concat (map append_if mutate_namespaces)
                     @ concat (map append_if drop_namespace_constraints)
                     @ drop_namespaces
               in if statements = [] then None else Some (join ''\<newline>'' statements))"
    by (rule mutate_catalog_stmt_pieces)
next
  assume name: "tbl_name tbl_source = tbl_name tbl_target"
    and columns: "list_all2 (target_column_fragment R mutate_column tbl_source)
           (values_of (tbl_columns tbl_target)) column_fragments"
    and drops: "map Inr drop_columns =
           map (column_drop_stmt R)
             (filter (\<lambda>c. local_id (col_name c) \<notin> set (keys (tbl_columns tbl_target)))
                (values_of (tbl_columns tbl_source)))"
    and constraints: "constraint_fragments =
            (if tbl_constraints tbl_source \<noteq> [] \<and> tbl_constraints tbl_target = []
             then map (\<lambda>c. ''DROP CONSTRAINT '' @ str_local R (con_name c))
                    (filter con_is_alter_table (tbl_constraints tbl_source))
             else if tbl_constraints tbl_source = [] \<and> tbl_constraints tbl_target \<noteq> []
             then map (\<lambda>c. ''ADD CONSTRAINT '' @ con_spec c)
                    (filter con_is_alter_table (tbl_constraints tbl_target))
             else [])"
  from constraints have "constraint_fragments = constraint_changes R tbl_source tbl_target"
    by (simp add: constraint_changes_def)
  with mutate_table_stmt_pieces [OF name columns drops]
  show "mutate_table_stmt R mutate_column tbl_source tbl_target =
          (let statements = concat column_fragments @ drop_columns @ constraint_fragments
           in if statements = [] then Inr None
              else case alter_table_stmt R tbl_source statements of
                     Inl e \<Rightarrow> Inl e | Inr statement \<Rightarrow> Inr (Some statement))"
    by simp
qed

text \<open>
  The witness of C3: what the three methods return for the example namespaces,
  catalogs and tables, each statement shown by its first ten characters.
\<close>

theorem statement_order_witness:
  "(\<exists>statements.
      mutate_namespace_stmt example_rendering (mutate_column_stmt example_rendering)
        shop_source shop_target = Inr (Some (join ''\<newline>'' statements))
      \<and> map (take 10) statements =
          [''CREATE TYP'', ''CREATE TYP'', ''CREATE TAB'', ''ALTER TABL'',
           ''ALTER TYPE'', ''ALTER TYPE'', ''ALTER TABL'',
           ''DROP TABLE'', ''DROP TYPE '', ''DROP TYPE ''])
   \<and> (\<exists>statements.
      mutate_catalog_stmt example_rendering (mutate_column_stmt example_rendering)
        catalog_source catalog_target = Inr (Some (join ''\<newline>'' statements))
      \<and> map (take 10) statements =
          [''CREATE SCH'', ''ALTER TABL'', ''CREATE TYP'', ''ALTER TABL'', ''DROP SCHEM''])
   \<and> (\<exists>fragments.
      mutate_table_stmt example_rendering (mutate_column_stmt example_rendering)
        accounts_source accounts_target =
          Inr (Some (''ALTER TABLE '' @ quote_id ''accounts'' @ ''\<newline>''
                     @ join '',\<newline>'' fragments @ '';''))
      \<and> map (take 10) fragments =
          [''ALTER COLU'', ''ADD COLUMN'', ''DROP COLUM'', ''ADD CONSTR''])"
proof (intro conjI)
  let ?R = example_rendering
  let ?mc = "mutate_column_stmt example_rendering"
  define ce where "ce = map (projr \<circ> enum_create_stmt ?R)
    (only_in (ns_enums shop_target) (ns_enums shop_source))"
  define cs where "cs = map (projr \<circ> struct_create_stmt ?R)
    (only_in (ns_structs shop_target) (ns_structs shop_source))"
  define ct where "ct = map (projr \<circ> table_create_stmt ?R)
    (only_in (ns_tables shop_target) (ns_tables shop_source))"
  define ac where "ac = map (projr \<circ> table_add_constraints_stmt ?R)
    (only_in (ns_tables shop_target) (ns_tables shop_source))"
  define me where "me = map (projr \<circ> (\<lambda>(s, t). mutate_enum_stmt ?R s t))
    (in_both (ns_enums shop_source) (ns_enums shop_target))"
  define ms where "ms = map (projr \<circ> (\<lambda>(s, t). mutate_struct_stmt ?R s t))
    (in_both (ns_structs shop_source) (ns_structs shop_target))"
  define mt where "mt = map (projr \<circ> (\<lambda>(s, t). mutate_table_stmt ?R ?mc s t))
    (in_both (ns_tables shop_source) (ns_tables shop_target))"
  define dt where "dt = map (projr \<circ> table_drop_stmt ?R)
    (only_in (ns_tables shop_source) (ns_tables shop_target))"
  define ds where "ds = map (projr \<circ> struct_drop_stmt ?R)
    (only_in (ns_structs shop_source) (ns_structs shop_target))"
  define de where "de = map (projr \<circ> enum_drop_stmt ?R)
    (only_in (ns_enums shop_source) (ns_enums shop_target))"
  note piece_defs = ce_def cs_def ct_def ac_def me_def ms_def mt_def dt_def ds_def de_def
  note eval = spec_defs tree_defs mutator_defs example_defs
  have hyps:
    "ns_name shop_source = ns_name shop_target
      \<and> distinct (keys (ns_enums shop_source)) \<and> distinct (keys (ns_enums shop_target))
      \<and> distinct (keys (ns_structs shop_source)) \<and> distinct (keys (ns_structs shop_target))
      \<and> distinct (keys (ns_tables shop_source)) \<and> distinct (keys (ns_tables shop_target))
      \<and> map Inr ce =
            map (enum_create_stmt ?R) (only_in (ns_enums shop_target) (ns_enums shop_source))
      \<and> map Inr cs =
            map (struct_create_stmt ?R) (only_in (ns_structs shop_target) (ns_structs shop_source))
      \<and> map Inr ct =
            map (table_create_stmt ?R) (only_in (ns_tables shop_target) (ns_tables shop_source))
      \<and> map Inr ac =
            map (table_add_constraints_stmt ?R)
              (only_in (ns_tables shop_target) (ns_tables shop_source))
      \<and> map Inr me =
            map (\<lambda>(s, t). mutate_enum_stmt ?R s t)
              (in_both (ns_enums shop_source) (ns_enums shop_target))
      \<and> map Inr ms =
            map (\<lambda>(s, t). mutate_struct_stmt ?R s t)
              (in_both (ns_structs shop_source) (ns_structs shop_target))
      \<and> map Inr mt =
            map (\<lambda>(s, t). mutate_table_stmt ?R ?mc s t)
              (in_both (ns_tables shop_source) (ns_tables shop_target))
      \<and> map Inr dt =
            map (table_drop_stmt ?R) (only_in (ns_tables shop_source) (ns_tables shop_target))
      \<and> map Inr ds =
            map (struct_drop_stmt ?R) (only_in (ns_structs shop_source) (ns_structs shop_target))
      \<and> map Inr de =
            map (enum_drop_stmt ?R) (only_in (ns_enums shop_source) (ns_enums shop_target))"
    by (simp add: piece_defs eval)
  let ?statements = "ce @ cs @ ct @ concat (map append_if ac) @ concat (map append_if me)
    @ concat (map append_if ms) @ concat (map append_if mt) @ dt @ ds @ de"
  have kinds: "map (take 10) ?statements =
      [''CREATE TYP'', ''CREATE TYP'', ''CREATE TAB'', ''ALTER TABL'',
       ''ALTER TYPE'', ''ALTER TYPE'', ''ALTER TABL'',
       ''DROP TABLE'', ''DROP TYPE '', ''DROP TYPE '']"
    by (simp add: piece_defs eval)
  have "map (take 10) ?statements \<noteq> []"
    unfolding kinds by simp
  then have "?statements \<noteq> []"
    by (simp only: map_is_Nil_conv not_False_eq_True)
  with statement_order [THEN conjunct1, rule_format, OF hyps]
  have "mutate_namespace_stmt ?R ?mc shop_source shop_target
      = Inr (Some (join ''\<newline>'' ?statements))"
    by (simp add: Let_def)
  with kinds show "\<exists>statements.
      mutate_namespace_stmt ?R ?mc shop_source shop_target
        = Inr (Some (join ''\<newline>'' statements))
      \<and> map (take 10) statements =
          [''CREATE TYP'', ''CREATE TYP'', ''CREATE TAB'', ''ALTER TABL'',
           ''ALTER TYPE'', ''ALTER TYPE'', ''ALTER TABL'',
           ''DROP TABLE'', ''DROP TYPE '', ''DROP TYPE '']"
    by (intro exI [of _ ?statements] conjI)
next
  let ?R = example_rendering
  let ?mc = "mutate_column_stmt example_rendering"
  define cn where "cn = map (projr \<circ> namespace_create_stmt ?R)
    (only_in (cat_namespaces catalog_target) (cat_namespaces catalog_source))"
  define an where "an = map (projr \<circ> namespace_add_constraints_stmt ?R)
    (only_in (cat_namespaces catalog_target) (cat_namespaces catalog_source))"
  define mn where "mn = map (projr \<circ> (\<lambda>(s, t). mutate_namespace_stmt ?R ?mc s t))
    (in_both (cat_namespaces catalog_source) (cat_namespaces catalog_target))"
  define dc where "dc = map (projr \<circ> namespace_drop_constraints_stmt ?R)
    (only_in (cat_namespaces catalog_source) (cat_namespaces catalog_target))"
  define dn where "dn = map (projr \<circ> namespace_drop_stmt ?R)
    (only_in (cat_namespaces catalog_source) (cat_namespaces catalog_target))"
  note piece_defs = cn_def an_def mn_def dc_def dn_def
  note eval = spec_defs tree_defs mutator_defs example_defs
  have hyps:
    "distinct (keys (cat_namespaces catalog_source))
      \<and> distinct (keys (cat_namespaces catalog_target))
      \<and> map Inr cn =
            map (namespace_create_stmt ?R)
              (only_in (cat_namespaces catalog_target) (cat_namespaces catalog_source))
      \<and> map Inr an =
            map (namespace_add_constraints_stmt ?R)
              (only_in (cat_namespaces catalog_target) (cat_namespaces catalog_source))
      \<and> map Inr mn =
            map (\<lambda>(s, t). mutate_namespace_stmt ?R ?mc s t)
              (in_both (cat_namespaces catalog_source) (cat_namespaces catalog_target))
      \<and> map Inr dc =
            map (namespace_drop_constraints_stmt ?R)
              (only_in (cat_namespaces catalog_source) (cat_namespaces catalog_target))
      \<and> map Inr dn =
            map (namespace_drop_stmt ?R)
              (only_in (cat_namespaces catalog_source) (cat_namespaces catalog_target))"
    by (simp add: piece_defs eval)
  let ?statements = "cn @ concat (map append_if an) @ concat (map append_if mn)
    @ concat (map append_if dc) @ dn"
  have kinds: "map (take 10) ?statements =
      [''CREATE SCH'', ''ALTER TABL'', ''CREATE TYP'', ''ALTER TABL'', ''DROP SCHEM'']"
    by (simp add: piece_defs eval)
  have "map (take 10) ?statements \<noteq> []"
    unfolding kinds by simp
  then have "?statements \<noteq> []"
    by (simp only: map_is_Nil_conv not_False_eq_True)
  with statement_order [THEN conjunct2, THEN conjunct1, rule_format, OF hyps]
  have "mutate_catalog_stmt ?R ?mc catalog_source catalog_target
      = Inr (Some (join ''\<newline>'' ?statements))"
    by (simp add: Let_def)
  with kinds show "\<exists>statements.
      mutate_catalog_stmt ?R ?mc catalog_source catalog_target
        = Inr (Some (join ''\<newline>'' statements))
      \<and> map (take 10) statements =
          [''CREATE SCH'', ''ALTER TABL'', ''CREATE TYP'', ''ALTER TABL'', ''DROP SCHEM'']"
    by (intro exI [of _ ?statements] conjI)
next
  let ?R = example_rendering
  let ?mc = "mutate_column_stmt example_rendering"
  let ?columns = "[[], [''ALTER COLUMN '' @ quote_id ''balance'' @ '' SET NOT NULL''],
    [''ADD COLUMN '' @ quote_id ''email'' @ '' text'']]"
  let ?drops = "[''DROP COLUMN '' @ quote_id ''legacy'']"
  let ?constraints = "[''ADD CONSTRAINT fk_author FOREIGN KEY (author) REFERENCES users (id)'']"
  note eval = spec_defs tree_defs mutator_defs example_defs
  have hyps:
    "tbl_name accounts_source = tbl_name accounts_target
      \<and> list_all2 (target_column_fragment ?R ?mc accounts_source)
            (values_of (tbl_columns accounts_target)) ?columns
      \<and> map Inr ?drops =
            map (column_drop_stmt ?R)
              (filter (\<lambda>c. local_id (col_name c) \<notin> set (keys (tbl_columns accounts_target)))
                 (values_of (tbl_columns accounts_source)))
      \<and> ?constraints =
            (if tbl_constraints accounts_source \<noteq> [] \<and> tbl_constraints accounts_target = []
             then map (\<lambda>c. ''DROP CONSTRAINT '' @ str_local ?R (con_name c))
                    (filter con_is_alter_table (tbl_constraints accounts_source))
             else if tbl_constraints accounts_source = []
                     \<and> tbl_constraints accounts_target \<noteq> []
             then map (\<lambda>c. ''ADD CONSTRAINT '' @ con_spec c)
                    (filter con_is_alter_table (tbl_constraints accounts_target))
             else [])"
    by (simp add: eval)
  let ?fragments = "concat ?columns @ ?drops @ ?constraints"
  have kinds: "map (take 10) ?fragments =
      [''ALTER COLU'', ''ADD COLUMN'', ''DROP COLUM'', ''ADD CONSTR'']"
    by (simp add: quote_id_def)
  have alter: "alter_table_stmt ?R accounts_source fragments =
      Inr (''ALTER TABLE '' @ quote_id ''accounts'' @ ''\<newline>''
           @ join '',\<newline>'' fragments @ '';'')" for fragments
    by (simp add: eval)
  from statement_order [THEN conjunct2, THEN conjunct2, rule_format, OF hyps]
  have "mutate_table_stmt ?R ?mc accounts_source accounts_target =
      Inr (Some (''ALTER TABLE '' @ quote_id ''accounts'' @ ''\<newline>''
                 @ join '',\<newline>'' ?fragments @ '';''))"
    by (simp add: Let_def alter)
  with kinds show "\<exists>fragments.
      mutate_table_stmt ?R ?mc accounts_source accounts_target =
          Inr (Some (''ALTER TABLE '' @ quote_id ''accounts'' @ ''\<newline>''
                     @ join '',\<newline>'' fragments @ '';''))
      \<and> map (take 10) fragments =
          [''ALTER COLU'', ''ADD COLUMN'', ''DROP COLUM'', ''ADD CONSTR'']"
    by (intro exI [of _ ?fragments] conjI)
qed

text \<open>
  The counterexample to C3 as stated, at the level of columns: \<open>balance\<close> is in both
  tables and \<open>email\<close> in the target only, and the alter fragment of \<open>balance\<close> comes
  before the create fragment of \<open>email\<close>.
\<close>

theorem column_fragments_interleaved:
  "table_changes example_rendering (mutate_column_stmt example_rendering)
       accounts_source accounts_target
     = Inr [''ALTER COLUMN '' @ quote_id ''balance'' @ '' SET NOT NULL'',
            ''ADD COLUMN '' @ quote_id ''email'' @ '' text'',
            ''DROP COLUMN '' @ quote_id ''legacy'',
            ''ADD CONSTRAINT fk_author FOREIGN KEY (author) REFERENCES users (id)'']
   \<and> mutate_column_stmt example_rendering
       (column ''balance'' ''int'' True) (column ''balance'' ''int'' False)
     = Inr (Some (''ALTER COLUMN '' @ quote_id ''balance'' @ '' SET NOT NULL''))
   \<and> column_create_stmt example_rendering (column ''email'' ''text'' True)
     = Inr (''ADD COLUMN '' @ quote_id ''email'' @ '' text'')
   \<and> map_of (tbl_columns accounts_source) ''balance'' = Some (column ''balance'' ''int'' True)
   \<and> map_of (tbl_columns accounts_source) ''email'' = None"
  by (simp add: table_changes_def check_identity_def accounts_source_def accounts_target_def
      example_defs create_or_update_column_def mutate_column_stmt_def column_changes_def
      drop_column_def constraint_changes_def fk_author_def)

end
